(* ===== verification/Prelude.thy ===== *)
theory Prelude
  imports Complex_Main
begin

text \<open>
  Shared vocabulary of the development. Dates are day numbers (\<open>day\<close>, days since
  1970-01-01, a Thursday). A Python/numpy float is a real number or NaN; it is modelled as
  \<open>pyfloat = real option\<close>, with \<open>None\<close> for NaN. Arithmetic with NaN gives NaN
  (\<open>nan_lift2\<close>) and every comparison with NaN is false (\<open>nan_less\<close>,
  \<open>nan_greater\<close>), as in IEEE 754. Infinities are not modelled: they arise only from a
  division by zero, which the theorems exclude by positivity hypotheses on prices and claims.
  The exceptions the script can raise are the values of \<open>py_error\<close>.
\<close>

named_theorems frame_len "length facts of the series and frame operations"

type_synonym day = int
type_synonym pyfloat = "real option"

datatype py_error = IndexError | ValueError | ProviderError

fun nan_lift2 :: "('a \<Rightarrow> 'b \<Rightarrow> 'c) \<Rightarrow> 'a option \<Rightarrow> 'b option \<Rightarrow> 'c option" where
  "nan_lift2 f (Some x) (Some y) = Some (f x y)"
| "nan_lift2 f _ _ = None"

text \<open>
  Float division where the divisor can be zero: numpy gives \<open>\<plusminus>inf\<close> or NaN there, a
  non-finite value that is no real number; \<open>py_div\<close> makes that case explicit as
  \<open>None\<close> instead of HOL's \<open>x / 0 = 0\<close>.
\<close>

definition py_div :: "real \<Rightarrow> real \<Rightarrow> pyfloat" where
  "py_div a b = (if b = 0 then None else Some (a / b))"

fun nan_less :: "pyfloat \<Rightarrow> real \<Rightarrow> bool" where
  "nan_less (Some x) c = (x < c)"
| "nan_less None c = False"

fun nan_greater :: "pyfloat \<Rightarrow> real \<Rightarrow> bool" where
  "nan_greater (Some x) c = (c < x)"
| "nan_greater None c = False"

lemma nan_lift2_Some_iff [simp]:
  "nan_lift2 f a b = Some z \<longleftrightarrow> (\<exists>x y. a = Some x \<and> b = Some y \<and> z = f x y)"
  by (cases a; cases b) auto

lemma nan_lift2_None_iff [simp]:
  "nan_lift2 f a b = None \<longleftrightarrow> a = None \<or> b = None"
  by (cases a; cases b) auto

lemma nth_map2 [simp]:
  "i < length xs \<Longrightarrow> i < length ys \<Longrightarrow> map2 f xs ys ! i = f (xs ! i) (ys ! i)"
  by simp

lemma zip_take_length [simp]: "zip xs (take (length xs) ys) = zip xs ys"
proof (induction xs arbitrary: ys)
  case (Cons x xs)
  then show ?case by (cases ys) auto
qed simp

lemma in_set_map_filter: "y \<in> set (List.map_filter f xs) \<longleftrightarrow> (\<exists>x\<in>set xs. f x = Some y)"
  by (induction xs) (auto simp: map_filter_simps split: option.splits)

lemma prod_list_pos:
  "\<forall>x\<in>set xs. (0::real) < x \<Longrightarrow> 0 < prod_list xs"
  by (induction xs) auto

lemma prod_list_map_upt_Suc: "prod_list (map f [1..<Suc i]) = (\<Prod>k = 1..i. f k)"
  by (induction i) (simp_all add: prod.cl_ivl_Suc mult.commute)

lemma mult_div_pos_cancel: "0 < (p::real) \<Longrightarrow> p * x / p - 1 = x - 1"
  by simp

end
