(* ===== verification/Pandas_Ops.thy ===== *)
theory Pandas_Ops
  imports Prelude
begin

text \<open>
  The pandas operations that \<^verbatim>\<open>src/Weekly_jobs_strategy.py\<close> applies to its time
  series, with the semantics of pandas 2.2 (the version the script's
  \<^verbatim>\<open>future.no_silent_downcasting\<close> option belongs to):
  \<^item> \<open>week_anchor\<close>, \<open>bin_last\<close>, \<open>resample_last\<close>: \<^verbatim>\<open>resample('W-FRI').last()\<close>;
  \<^item> \<open>ffill_from\<close>, \<open>ffill\<close>: \<^verbatim>\<open>Series.ffill()\<close>, an explicit scan with the last
    defined value as accumulator;
  \<^item> \<open>shift1\<close>: \<^verbatim>\<open>shift(1)\<close>;
  \<^item> \<open>pct_change\<close>: \<^verbatim>\<open>pct_change()\<close>, which pads NaNs forward before dividing;
  \<^item> \<open>cumprod_from\<close>, \<open>cumprod\<close>: \<^verbatim>\<open>cumprod()\<close>, which skips NaN (it stays NaN at its
    position and the running product goes on);
  \<^item> \<open>dropna\<close>, \<open>series_mean\<close>, \<open>series_std\<close> (sample deviation, ddof = 1),
    \<open>iloc_last\<close> (\<^verbatim>\<open>iloc[-1]\<close>, IndexError on an empty series) and \<open>py_pow\<close>
    (numpy's \<^verbatim>\<open>**\<close> on float64).
  The lemmas give each operation's value at every index, the reference characterisation of
  the forward fill, and the telescoping of a cumulative product of percentage changes.
\<close>

subsection \<open>Weekly resampling\<close>

text \<open>Day 1 (1970-01-02) is a Friday; the bin of a day is labelled by the Friday on or after it.\<close>

definition week_anchor :: "day \<Rightarrow> day" where
  "week_anchor d = d + (1 - d) mod 7"

fun bin_last :: "day \<Rightarrow> pyfloat \<Rightarrow> (day \<times> pyfloat) list \<Rightarrow> pyfloat" where
  "bin_last a acc [] = acc"
| "bin_last a acc ((d, v) # obs) =
     bin_last a (if week_anchor d = a \<and> v \<noteq> None then v else acc) obs"

definition resample_last :: "(day \<times> pyfloat) list \<Rightarrow> (day \<times> pyfloat) list" where
  "resample_last obs =
     (if obs = [] then []
      else let a0 = week_anchor (Min (set (map fst obs)));
               a1 = week_anchor (Max (set (map fst obs)))
           in map (\<lambda>k. let a = a0 + 7 * int k in (a, bin_last a None obs))
                  [0..<Suc (nat ((a1 - a0) div 7))])"

subsection \<open>Element-wise operations\<close>

definition ffill_step :: "'a option \<Rightarrow> 'a option \<Rightarrow> 'a option" where
  "ffill_step c x = (case x of None \<Rightarrow> c | Some v \<Rightarrow> Some v)"

fun ffill_from :: "'a option \<Rightarrow> 'a option list \<Rightarrow> 'a option list" where
  "ffill_from c [] = []"
| "ffill_from c (x # xs) = (let c' = ffill_step c x in c' # ffill_from c' xs)"

definition ffill :: "'a option list \<Rightarrow> 'a option list" where
  "ffill xs = ffill_from None xs"

definition shift1 :: "'a option list \<Rightarrow> 'a option list" where
  "shift1 xs = take (length xs) (None # xs)"

definition pct_change :: "pyfloat list \<Rightarrow> pyfloat list" where
  "pct_change xs = (let d = ffill xs in map2 (nan_lift2 (\<lambda>c p. c / p - 1)) d (shift1 d))"

fun cumprod_from :: "real \<Rightarrow> pyfloat list \<Rightarrow> pyfloat list" where
  "cumprod_from a [] = []"
| "cumprod_from a (None # xs) = None # cumprod_from a xs"
| "cumprod_from a (Some x # xs) = Some (a * x) # cumprod_from (a * x) xs"

definition cumprod :: "pyfloat list \<Rightarrow> pyfloat list" where
  "cumprod xs = cumprod_from 1 xs"

fun dropna :: "'a option list \<Rightarrow> 'a list" where
  "dropna [] = []"
| "dropna (None # xs) = dropna xs"
| "dropna (Some x # xs) = x # dropna xs"

subsection \<open>Reductions\<close>

definition series_mean :: "real list \<Rightarrow> pyfloat" where
  "series_mean xs = (if xs = [] then None else Some (sum_list xs / real (length xs)))"

definition series_std :: "real list \<Rightarrow> pyfloat" where
  "series_std xs =
     (if length xs < 2 then None
      else let m = sum_list xs / real (length xs)
           in Some (sqrt (sum_list (map (\<lambda>x. (x - m)\<^sup>2) xs) / real (length xs - 1))))"

definition iloc_last :: "'a list \<Rightarrow> py_error + 'a" where
  "iloc_last xs = (if xs = [] then Inl IndexError else Inr (last xs))"

text \<open>
  numpy's power of float64 values with a positive exponent: \<open>0 ** e = 0\<close>, NaN for a NaN
  base and for a negative base (the exponent \<open>52 / weeks\<close> of the script is integral only
  when the frame has 1, 2, 4, 13, 26 or 52 rows; a negative base never arises, lemma
  \<open>Backtest.cum_strategy_pos\<close>).
\<close>

fun py_pow :: "pyfloat \<Rightarrow> real \<Rightarrow> pyfloat" where
  "py_pow None e = None"
| "py_pow (Some x) e = (if 0 < x then Some (x powr e) else if x = 0 then Some 0 else None)"

subsection \<open>Reference characterisation of the forward fill\<close>

text \<open>The value a forward fill shows after a prefix: its last defined entry, else \<open>c\<close>.\<close>

definition latest :: "'a option \<Rightarrow> 'a option list \<Rightarrow> 'a option" where
  "latest c xs = (case filter (\<lambda>x. x \<noteq> None) xs of [] \<Rightarrow> c | ys \<Rightarrow> last ys)"

subsection \<open>Example data\<close>

text \<open>Observations on days 2, 3, 9, 10 (bins of the Fridays 8 and 15); day 3 is NaN.\<close>

definition ex_obs :: "(day \<times> pyfloat) list" where
  "ex_obs = [(2, Some 100), (3, None), (9, Some 110), (10, Some 120)]"

subsection \<open>Lengths\<close>

lemma length_ffill_from [simp, frame_len]: "length (ffill_from c xs) = length xs"
  by (induction xs arbitrary: c) (auto simp: Let_def)

lemma length_ffill [simp, frame_len]: "length (ffill xs) = length xs"
  by (simp add: ffill_def)

lemma length_shift1 [simp, frame_len]: "length (shift1 xs) = length xs"
  by (simp add: shift1_def)

lemma length_pct_change [simp, frame_len]: "length (pct_change xs) = length xs"
  by (simp add: pct_change_def Let_def)

lemma length_cumprod_from [simp, frame_len]: "length (cumprod_from a xs) = length xs"
  by (induction a xs rule: cumprod_from.induct) auto

lemma length_cumprod [simp, frame_len]: "length (cumprod xs) = length xs"
  by (simp add: cumprod_def)

lemma length_resample_last [frame_len]:
  "obs \<noteq> [] \<Longrightarrow> length (resample_last obs) =
     Suc (nat ((week_anchor (Max (set (map fst obs))) - week_anchor (Min (set (map fst obs)))) div 7))"
  by (simp add: resample_last_def Let_def)

lemma resample_last_Nil_iff [simp]: "resample_last obs = [] \<longleftrightarrow> obs = []"
  by (simp add: resample_last_def Let_def)

subsection \<open>Forward fill\<close>

lemma ffill_step_simps [simp]: "ffill_step c None = c" "ffill_step c (Some v) = Some v"
  by (simp_all add: ffill_step_def)

lemma ffill_from_Cons [simp]:
  "ffill_from c (x # xs) = ffill_step c x # ffill_from (ffill_step c x) xs"
  by (simp add: Let_def)


declare ffill_from.simps(2) [simp del]

lemma latest_Cons: "latest c (x # xs) = latest (ffill_step c x) xs"
  by (cases x) (auto simp: latest_def split: list.splits)

lemma ffill_from_nth:
  "i < length xs \<Longrightarrow> ffill_from c xs ! i = latest c (take (Suc i) xs)"
proof (induction xs arbitrary: c i)
  case Nil
  then show ?case by simp
next
  case (Cons x xs)
  then show ?case
    by (cases i) (simp_all add: latest_Cons, cases x, simp_all add: latest_def)
qed

lemma ffill_from_Some_defined: "None \<notin> set (ffill_from (Some v) xs)"
proof (induction xs arbitrary: v)
  case (Cons x xs)
  then show ?case by (cases x) auto
qed simp

lemma map_Some_the: "None \<notin> set ys \<Longrightarrow> map Some (map the ys) = ys"
  by (induction ys) auto

lemma ffill_prefix:
  "\<exists>ys. ffill xs = replicate (length (takeWhile (\<lambda>x. x = None) xs)) None @ map Some ys"
proof (induction xs)
  case Nil
  then show ?case by (simp add: ffill_def)
next
  case (Cons x xs)
  show ?case
  proof (cases x)
    case None
    with Cons show ?thesis by (simp add: ffill_def)
  next
    case (Some v)
    have "map Some (map the (ffill_from (Some v) xs)) = ffill_from (Some v) xs"
      by (rule map_Some_the [OF ffill_from_Some_defined])
    then have "ffill (x # xs) = map Some (v # map the (ffill_from (Some v) xs))"
      using Some by (simp add: ffill_def)
    then show ?thesis using Some by (intro exI [of _ "v # map the (ffill_from (Some v) xs)"]) simp
  qed
qed

lemma latest_alt:
  "latest c xs = (if filter (\<lambda>x. x \<noteq> None) xs = [] then c else last (filter (\<lambda>x. x \<noteq> None) xs))"
  by (simp add: latest_def split: list.split)

lemma latest_snoc: "latest c (ys @ [x]) = ffill_step (latest c ys) x"
  by (cases x) (simp_all add: latest_alt)

lemma ffill_from_nth_Suc:
  "Suc i < length xs \<Longrightarrow> ffill_from c xs ! Suc i = ffill_step (ffill_from c xs ! i) (xs ! Suc i)"
  by (simp add: ffill_from_nth take_Suc_conv_app_nth [of "Suc i" xs] latest_snoc)

lemma latest_take_Some:
  "i < length xs \<Longrightarrow> xs ! i = Some v \<Longrightarrow> latest c (take (Suc i) xs) = Some v"
  by (simp add: take_Suc_conv_app_nth latest_snoc)

lemma ffill_defined_stays:
  assumes "i \<le> j" "j < length xs" "ffill xs ! i \<noteq> None"
  shows "ffill xs ! j \<noteq> None"
proof -
  obtain ys where eq: "ffill xs = replicate (length (takeWhile (\<lambda>x. x = None) xs)) None @ map Some ys"
    using ffill_prefix by blast
  let ?k = "length (takeWhile (\<lambda>x. x = None) xs)"
  have "\<not> i < ?k" using assms(3) eq by (auto simp: nth_append)
  with assms(1) have k: "?k \<le> j" by simp
  have "length (ffill xs) = ?k + length ys" using eq by simp
  with assms(2) k have "j - ?k < length ys" by simp
  moreover from eq k have "ffill xs ! j = map Some ys ! (j - ?k)" by (simp add: nth_append)
  ultimately show ?thesis by simp
qed

lemma ffill_from_nth_0: "xs \<noteq> [] \<Longrightarrow> ffill_from c xs ! 0 = ffill_step c (xs ! 0)"
  by (cases xs) auto

lemma ffill_map_Some [simp]: "ffill_from c (map Some xs) = map Some xs"
  by (induction xs arbitrary: c) auto

subsection \<open>Shift and percentage change\<close>

lemma nth_shift1:
  "i < length xs \<Longrightarrow> shift1 xs ! i = (if i = 0 then None else xs ! (i - 1))"
  by (auto simp: shift1_def nth_Cons')

lemma pct_change_defined:
  "pct_change (Some p # map Some ps) = None # map Some (map2 (\<lambda>c q. c / q - 1) ps (p # ps))"
proof -
  have "shift1 (map Some (p # ps)) = None # map Some (butlast (p # ps))"
    by (simp add: shift1_def butlast_conv_take) (metis list.simps(9) take_map)
  then show ?thesis
    by (auto simp: pct_change_def ffill_def zip_map1 zip_map2 butlast_conv_take)
qed

lemma pct_change_nth_defined:
  assumes "0 < i" "i < length xs" "xs ! (i - 1) = Some p" "xs ! i = Some c"
  shows "pct_change xs ! i = Some (c / p - 1)"
proof -
  have "ffill xs ! i = Some c"
    using assms by (simp add: ffill_def ffill_from_nth latest_take_Some)
  moreover have "ffill xs ! (i - 1) = Some p"
    using assms latest_take_Some [of "i - 1" xs p None] by (simp add: ffill_def ffill_from_nth)
  ultimately show ?thesis using assms(1,2) by (simp add: pct_change_def nth_shift1 Let_def)
qed

lemma pct_change_eq_Nil_iff [simp]: "pct_change xs = [] \<longleftrightarrow> xs = []"
  by (metis length_pct_change length_0_conv)

lemma pct_change_nth_0: "xs \<noteq> [] \<Longrightarrow> pct_change xs ! 0 = None"
  by (simp add: pct_change_def nth_shift1 Let_def)

subsection \<open>Cumulative products\<close>

lemma cumprod_from_map_Some:
  "i < length xs \<Longrightarrow> cumprod_from a (map Some xs) ! i = Some (a * prod_list (take (Suc i) xs))"
proof (induction xs arbitrary: a i)
  case (Cons x xs)
  then show ?case by (cases i) (simp_all add: mult.assoc)
qed simp

lemma prod_ratios_telescope:
  "\<forall>x\<in>set (p # ps). x \<noteq> (0::real) \<Longrightarrow> k \<le> length ps \<Longrightarrow>
   prod_list (take k (map2 (\<lambda>c q. c / q) ps (p # ps))) = (p # ps) ! k / p"
proof (induction ps arbitrary: p k)
  case Nil
  then show ?case by simp
next
  case (Cons c ps)
  show ?case
  proof (cases k)
    case 0
    with Cons.prems show ?thesis by simp
  next
    case (Suc j)
    with Cons.prems have "prod_list (take j (map2 (\<lambda>c q. c / q) ps (c # ps))) = (c # ps) ! j / c"
      by (intro Cons.IH) auto
    with Suc Cons.prems show ?thesis by simp
  qed
qed

subsection \<open>Reductions\<close>

lemma dropna_map_Some_fun [simp]: "dropna (map (\<lambda>x. Some (f x)) xs) = map f xs"
  by (induction xs) auto

lemma cumprod_eq_Nil_iff [simp]: "cumprod xs = [] \<longleftrightarrow> xs = []"
  by (metis length_cumprod length_0_conv)

lemma take_cumprod_from: "take n (cumprod_from a xs) = cumprod_from a (take n xs)"
  by (induction a xs arbitrary: n rule: cumprod_from.induct) (auto simp: take_Cons')

lemma cumprod_from_nth_0_None: "xs \<noteq> [] \<Longrightarrow> xs ! 0 = None \<Longrightarrow> cumprod_from a xs ! 0 = None"
  by (cases xs) auto

lemma set_dropna: "set (dropna xs) = {c. Some c \<in> set xs}"
  by (induction xs rule: dropna.induct) auto

lemma dropna_map_Some [simp]: "dropna (map Some xs) = xs"
  by (induction xs) auto

lemma series_std_const:
  "2 \<le> length xs \<Longrightarrow> \<forall>x\<in>set xs. x = c \<Longrightarrow> series_std xs = Some 0"
proof -
  assume len: "2 \<le> length xs" and c: "\<forall>x\<in>set xs. x = c"
  have "sum_list xs = real (length xs) * c"
    using c by (induction xs) (auto simp: algebra_simps)
  with len have m: "sum_list xs / real (length xs) = c" by auto
  have "(\<Sum>x\<leftarrow>xs. (x - c)\<^sup>2) = 0"
    using c by (induction xs) auto
  with len m show ?thesis by (simp add: series_std_def Let_def)
qed

subsection \<open>Weekly resampling\<close>

lemma week_anchor_bounds: "d \<le> week_anchor d \<and> week_anchor d < d + 7"
  by (simp add: week_anchor_def)

lemma week_anchor_friday: "week_anchor d mod 7 = 1"
  by (simp add: week_anchor_def) presburger

lemma week_anchor_idem: "week_anchor (week_anchor d) = week_anchor d"
  by (simp add: week_anchor_def) presburger

lemma resample_last_Nil [simp]: "resample_last [] = []"
  by (simp add: resample_last_def)

lemma week_anchor_mono: "d \<le> d' \<Longrightarrow> week_anchor d \<le> week_anchor d'"
  unfolding week_anchor_def by presburger

lemma bin_last_latest:
  "bin_last a acc obs = latest acc (map snd (filter (\<lambda>(d, v). week_anchor d = a) obs))"
proof (induction obs arbitrary: acc)
  case Nil
  then show ?case by (simp add: latest_def)
next
  case (Cons ob obs)
  obtain d v where ob: "ob = (d, v)" by fastforce
  show ?case
  proof (cases "week_anchor d = a")
    case True
    with Cons ob show ?thesis by (cases v) (simp_all add: latest_Cons)
  next
    case False
    with Cons ob show ?thesis by simp
  qed
qed

lemma resample_last_dates:
  "obs \<noteq> [] \<Longrightarrow> map fst (resample_last obs) =
     map (\<lambda>k. week_anchor (Min (set (map fst obs))) + 7 * int k)
       [0..<Suc (nat ((week_anchor (Max (set (map fst obs))) - week_anchor (Min (set (map fst obs)))) div 7))]"
  by (simp add: resample_last_def Let_def comp_def)

lemma resample_last_sorted: "sorted_wrt (<) (map fst (resample_last obs))"
proof (cases "obs = []")
  case False
  have "sorted_wrt (<) (map (\<lambda>k. week_anchor (Min (set (map fst obs))) + 7 * int k) [0..<n])" for n
    by (rule sorted_wrt_map [THEN iffD2], rule sorted_wrt_mono_rel [OF _ sorted_wrt_upt]) simp
  then show ?thesis using False by (simp add: resample_last_dates del: upt_Suc)
qed simp

lemma resample_last_fridays: "d \<in> set (map fst (resample_last obs)) \<Longrightarrow> d mod 7 = 1"
  by (cases "obs = []") (auto simp: resample_last_dates week_anchor_friday simp del: upt_Suc)

lemma ex_obs_resampled: "resample_last ex_obs = [(8, Some 100), (15, Some 120)]"
  by (simp add: ex_obs_def resample_last_def week_anchor_def numeral_eq_Suc upt_rec)

subsection \<open>Properties of the weekly resampling\<close>

text \<open>
  C34 (safety). Resampling loses no week: the Friday of every observation, NaN or not, is a
  date of the resampled series.
\<close>

theorem resample_last_covers:
  assumes "(d, v) \<in> set obs"
  shows "week_anchor d \<in> set (map fst (resample_last obs))"
proof -
  let ?ds = "set (map fst obs)"
  let ?a0 = "week_anchor (Min ?ds)" and ?a1 = "week_anchor (Max ?ds)"
  have ne: "obs \<noteq> []" using assms by auto
  have "d \<in> ?ds" using assms by force
  then have "Min ?ds \<le> d" "d \<le> Max ?ds" by auto
  then have lo: "?a0 \<le> week_anchor d" and hi: "week_anchor d \<le> ?a1"
    by (auto intro: week_anchor_mono)
  have "week_anchor d mod 7 = ?a0 mod 7" by (simp add: week_anchor_friday)
  then have "7 dvd (week_anchor d - ?a0)" by (simp add: mod_eq_dvd_iff)
  then have eq: "week_anchor d = ?a0 + 7 * int (nat ((week_anchor d - ?a0) div 7))"
    using lo by (auto elim!: dvdE)
  have "(week_anchor d - ?a0) div 7 \<le> (?a1 - ?a0) div 7"
    using hi by (simp add: zdiv_mono1)
  then have lt: "nat ((week_anchor d - ?a0) div 7) < Suc (nat ((?a1 - ?a0) div 7))"
    by (simp add: less_Suc_eq_le nat_mono)
  from ne have "set (map fst (resample_last obs)) =
      (\<lambda>k. ?a0 + 7 * int k) ` {0..<Suc (nat ((?a1 - ?a0) div 7))}"
    by (simp add: resample_last_dates del: upt_Suc)
  with eq lt show ?thesis
    by (metis atLeastLessThan_iff image_eqI zero_le)
qed


theorem resample_last_covers_witness:
  "(3, None) \<in> set ex_obs \<and> week_anchor 3 \<in> set (map fst (resample_last ex_obs))"
proof -
  have h: "(3, None) \<in> set ex_obs" by (simp add: ex_obs_def)
  show ?thesis using h resample_last_covers [OF h] by blast
qed

text \<open>
  C35 (equivalence). \<^verbatim>\<open>.last()\<close> per bin: the value of each resampled Friday equals the
  reference \<open>latest\<close> of the observations whose Friday it is, that is the last
  non-NaN one, and NaN when the bin has none.
\<close>

theorem resample_last_values:
  "(a, v) \<in> set (resample_last obs) \<Longrightarrow>
     v = latest None (map snd (filter (\<lambda>(d, v). week_anchor d = a) obs))"
  by (auto simp: resample_last_def Let_def bin_last_latest split: if_splits)

theorem resample_last_values_witness:
  "(8, Some 100) \<in> set (resample_last ex_obs) \<and>
   Some 100 = latest None (map snd (filter (\<lambda>(d, v). week_anchor d = 8) ex_obs))"
proof -
  have h: "(8, Some 100) \<in> set (resample_last ex_obs)" by (simp add: ex_obs_resampled)
  show ?thesis using h resample_last_values [OF h] by blast
qed

end
