(* ===== verification/Signal.thy ===== *)
theory Signal
  imports Pandas_Ops
begin

text \<open>
  The Signal Generator: \<^verbatim>\<open>get_jobless_claims_data\<close> (src/Weekly_jobs_strategy.py,
  lines 16-22). The weekly claims series (\<^verbatim>\<open>fred.get_series('ICSA')\<close>, an external
  collaborator, here the argument \<open>raw\<close>) is resampled to Fridays; the percentage change
  is computed; the raw state is Long (\<^verbatim>\<open>1\<close>) below \<open>-2\<close>, Flat (\<^verbatim>\<open>0\<close>) above
  \<open>2\<close> and NaN otherwise (\<open>raw_signal\<close>); the state is forward filled
  (\<open>signal_series\<close>). The resulting DataFrame is a list of \<open>claims_row\<close> records, one per
  Friday. The lemmas show the thresholds (strict, NaN undefined), that the first week is
  always undefined, that the signal column has an undefined prefix and no undefined value
  after it, that each week's signal is the state of the latest threshold crossing, and that
  every frame is well-formed (\<open>claims_frame_wf\<close>: a strictly increasing index of Fridays,
  a signal column NaN only on a leading prefix).
\<close>

datatype signal = Long | Flat

definition sig_val :: "signal \<Rightarrow> real" where
  "sig_val s = (case s of Long \<Rightarrow> 1 | Flat \<Rightarrow> 0)"

record claims_row =
  cr_date :: day
  initial_claims :: pyfloat
  claims_change :: pyfloat
  signal :: "signal option"

definition raw_signal :: "pyfloat \<Rightarrow> signal option" where
  "raw_signal c =
     (if nan_less c (-2) then Some Long else if nan_greater c 2 then Some Flat else None)"

definition claims_change_pct :: "pyfloat list \<Rightarrow> pyfloat list" where
  "claims_change_pct ic = map (map_option (\<lambda>x. x * 100)) (pct_change ic)"

definition signal_series :: "pyfloat list \<Rightarrow> signal option list" where
  "signal_series chg = ffill (map raw_signal chg)"

definition get_jobless_claims_data :: "(day \<times> pyfloat) list \<Rightarrow> claims_row list" where
  "get_jobless_claims_data raw =
     (let claims = resample_last raw;
          chg = claims_change_pct (map snd claims);
          sig = signal_series chg
      in map (\<lambda>((d, c), ch, s).
                \<lparr>cr_date = d, initial_claims = c, claims_change = ch, signal = s\<rparr>)
             (zip claims (zip chg sig)))"

text \<open>
  Well-formedness of a claims frame: its index is strictly increasing and made of Fridays,
  and its signal column is NaN on a leading prefix only.
\<close>

definition claims_frame_wf :: "claims_row list \<Rightarrow> bool" where
  "claims_frame_wf cs \<longleftrightarrow>
     sorted_wrt (<) (map cr_date cs) \<and> list_all (\<lambda>r. cr_date r mod 7 = 1) cs \<and>
     None \<notin> set (dropWhile (\<lambda>s. s = None) (map signal cs))"

subsection \<open>Example data\<close>

text \<open>Four weekly ICSA observations dated on Saturdays (days 2, 9, 16, 23): 100, 110, 99, 99.\<close>

definition ex_claims_raw :: "(day \<times> pyfloat) list" where
  "ex_claims_raw = [(2, Some 100), (9, Some 110), (16, Some 99), (23, Some 99)]"

subsection \<open>Lemmas\<close>

lemma length_claims_change_pct [simp, frame_len]:
  "length (claims_change_pct ic) = length ic"
  by (simp add: claims_change_pct_def)

lemma length_signal_series [simp, frame_len]:
  "length (signal_series chg) = length chg"
  by (simp add: signal_series_def)

lemma length_get_jobless_claims_data [simp, frame_len]:
  "length (get_jobless_claims_data raw) = length (resample_last raw)"
  by (simp add: get_jobless_claims_data_def Let_def)

lemma get_jobless_claims_data_nth:
  assumes "i < length (resample_last raw)"
  shows "get_jobless_claims_data raw ! i =
    \<lparr>cr_date = fst (resample_last raw ! i), initial_claims = snd (resample_last raw ! i),
     claims_change = claims_change_pct (map snd (resample_last raw)) ! i,
     signal = signal_series (claims_change_pct (map snd (resample_last raw))) ! i\<rparr>"
  using assms by (simp add: get_jobless_claims_data_def Let_def case_prod_beta)

lemma raw_signal_Long_iff: "raw_signal c = Some Long \<longleftrightarrow> (\<exists>x. c = Some x \<and> x < -2)"
  by (cases c) (auto simp: raw_signal_def)

lemma raw_signal_Flat_iff: "raw_signal c = Some Flat \<longleftrightarrow> (\<exists>x. c = Some x \<and> 2 < x)"
  by (cases c) (auto simp: raw_signal_def)

lemma raw_signal_None_iff:
  "raw_signal c = None \<longleftrightarrow> c = None \<or> (\<exists>x. c = Some x \<and> -2 \<le> x \<and> x \<le> 2)"
  by (cases c) (auto simp: raw_signal_def)

lemma ex_claims_frame:
  "get_jobless_claims_data ex_claims_raw =
    [\<lparr>cr_date = 8, initial_claims = Some 100, claims_change = None, signal = None\<rparr>,
     \<lparr>cr_date = 15, initial_claims = Some 110, claims_change = Some 10, signal = Some Flat\<rparr>,
     \<lparr>cr_date = 22, initial_claims = Some 99, claims_change = Some (-10), signal = Some Long\<rparr>,
     \<lparr>cr_date = 29, initial_claims = Some 99, claims_change = Some 0, signal = Some Long\<rparr>]"
  by (simp add: ex_claims_raw_def get_jobless_claims_data_def resample_last_def week_anchor_def
      claims_change_pct_def signal_series_def pct_change_def ffill_def shift1_def
      raw_signal_def numeral_eq_Suc upt_rec)

lemma map_cr_date_get_jobless_claims_data:
  "map cr_date (get_jobless_claims_data raw) = map fst (resample_last raw)"
  by (simp add: get_jobless_claims_data_def Let_def map_zip_map2 comp_def
      list_eq_iff_nth_eq split_beta)

lemma map_signal_get_jobless_claims_data:
  "map signal (get_jobless_claims_data raw) =
     signal_series (claims_change_pct (map snd (resample_last raw)))"
  by (simp add: get_jobless_claims_data_def Let_def list_eq_iff_nth_eq split_beta)

lemma dropWhile_replicate_None: "dropWhile (\<lambda>s. s = None) (replicate k None @ map Some ys) = map Some ys"
  by (induction k) (cases ys; simp)+

subsection \<open>Properties of the signal\<close>

text \<open>
  C10 (invariant). In the claims frame, once the signal is defined (Long or Flat) it stays
  defined in every later week: the undefined states form a leading prefix.
\<close>

theorem signal_no_undefined_after_defined:
  assumes "i \<le> j" "j < length (get_jobless_claims_data raw)"
    "signal (get_jobless_claims_data raw ! i) \<noteq> None"
  shows "signal (get_jobless_claims_data raw ! j) \<noteq> None"
  using assms ffill_defined_stays [of i j "map raw_signal (claims_change_pct (map snd (resample_last raw)))"]
  by (simp add: get_jobless_claims_data_nth signal_series_def)

theorem signal_no_undefined_after_defined_witness:
  "1 \<le> (2::nat) \<and> 2 < length (get_jobless_claims_data ex_claims_raw) \<and>
   signal (get_jobless_claims_data ex_claims_raw ! 1) \<noteq> None \<and>
   signal (get_jobless_claims_data ex_claims_raw ! 2) \<noteq> None"
proof -
  have h: "1 \<le> (2::nat)" "2 < length (get_jobless_claims_data ex_claims_raw)"
    "signal (get_jobless_claims_data ex_claims_raw ! 1) \<noteq> None"
    by (simp_all add: ex_claims_frame)
  show ?thesis using h signal_no_undefined_after_defined [OF h] by blast
qed

text \<open>
  C11 (functional). For two consecutive weeks with positive claims \<open>p\<close> then \<open>c\<close>, the
  signal switches to Long when claims fall by more than 2\% (\<open>c < 0.98 p\<close>), to Flat when
  they rise by more than 2\% (\<open>c > 1.02 p\<close>), and otherwise keeps last week's state; the
  thresholds are strict.
\<close>

theorem signal_switch_rule:
  assumes "0 < i" "i < length (get_jobless_claims_data raw)"
    "initial_claims (get_jobless_claims_data raw ! (i - 1)) = Some p"
    "initial_claims (get_jobless_claims_data raw ! i) = Some c" "0 < p"
  shows "signal (get_jobless_claims_data raw ! i) =
    (if c < 49/50 * p then Some Long else if 51/50 * p < c then Some Flat
     else signal (get_jobless_claims_data raw ! (i - 1)))"
proof -
  let ?ic = "map snd (resample_last raw)"
  let ?sig = "map raw_signal (claims_change_pct ?ic)"
  have len: "i < length ?ic" using assms(2) by simp
  have "?ic ! (i - 1) = Some p" "?ic ! i = Some c"
    using assms(1-4) by (simp_all add: get_jobless_claims_data_nth)
  then have chg: "claims_change_pct ?ic ! i = Some ((c / p - 1) * 100)"
    using assms(1) len by (simp add: claims_change_pct_def pct_change_nth_defined)
  have step: "ffill ?sig ! i = ffill_step (ffill ?sig ! (i - 1)) (?sig ! i)"
    using ffill_from_nth_Suc [of "i - 1" ?sig None] assms(1) len by (simp add: ffill_def)
  have "raw_signal (Some ((c / p - 1) * 100)) =
      (if c < 49/50 * p then Some Long else if 51/50 * p < c then Some Flat else None)"
    using assms(5) by (auto simp: raw_signal_def field_simps)
  with step chg len assms(1,2) show ?thesis
    by (simp add: get_jobless_claims_data_nth signal_series_def)
qed

theorem signal_switch_rule_witness:
  "0 < (2::nat) \<and> 2 < length (get_jobless_claims_data ex_claims_raw) \<and>
   initial_claims (get_jobless_claims_data ex_claims_raw ! (2 - 1)) = Some 110 \<and>
   initial_claims (get_jobless_claims_data ex_claims_raw ! 2) = Some 99 \<and> (0::real) < 110 \<and>
   signal (get_jobless_claims_data ex_claims_raw ! 2) =
    (if (99::real) < 49/50 * 110 then Some Long else if 51/50 * 110 < (99::real) then Some Flat
     else signal (get_jobless_claims_data ex_claims_raw ! (2 - 1)))"
proof -
  have h: "0 < (2::nat)" "2 < length (get_jobless_claims_data ex_claims_raw)"
    "initial_claims (get_jobless_claims_data ex_claims_raw ! (2 - 1)) = Some 110"
    "initial_claims (get_jobless_claims_data ex_claims_raw ! 2) = Some 99" "(0::real) < 110"
    by (simp_all add: ex_claims_frame)
  show ?thesis using h signal_switch_rule [OF h] by blast
qed

text \<open>
  C12 (equivalence). The forward-filled signal of week \<open>i\<close> equals the reference
  definition: the state of the latest threshold crossing among weeks \<open>0..i\<close>
  (\<open>latest\<close>), undefined if there is none.
\<close>

theorem signal_latest_crossing:
  "i < length (get_jobless_claims_data raw) \<Longrightarrow>
   signal (get_jobless_claims_data raw ! i) =
   latest None (map raw_signal (take (Suc i) (claims_change_pct (map snd (resample_last raw)))))"
  by (simp add: get_jobless_claims_data_nth signal_series_def ffill_def ffill_from_nth take_map)

theorem signal_latest_crossing_witness:
  "2 < length (get_jobless_claims_data ex_claims_raw) \<and>
   signal (get_jobless_claims_data ex_claims_raw ! 2) =
   latest None (map raw_signal (take (Suc 2) (claims_change_pct (map snd (resample_last ex_claims_raw)))))"
proof -
  have h: "2 < length (get_jobless_claims_data ex_claims_raw)"
    by (simp add: ex_claims_frame)
  show ?thesis using h signal_latest_crossing [OF h] by blast
qed

text \<open>
  C13 (functional). The first week of a non-empty claims frame has no percentage change and
  an undefined signal: it has no prior value.
\<close>

theorem first_week_undefined:
  "raw \<noteq> [] \<Longrightarrow> claims_change (get_jobless_claims_data raw ! 0) = None \<and>
     signal (get_jobless_claims_data raw ! 0) = None"
proof -
  assume ne: "raw \<noteq> []"
  let ?chg = "claims_change_pct (map snd (resample_last raw))"
  have len: "?chg \<noteq> []"
    using ne by (metis length_0_conv length_claims_change_pct length_map resample_last_Nil_iff)
  have "map snd (resample_last raw) \<noteq> []" using ne by simp
  then have c0: "?chg ! 0 = None"
    by (simp add: claims_change_pct_def pct_change_nth_0 nth_map [of 0] length_greater_0_conv)
  moreover have "0 < length ?chg" using len by blast
  ultimately have "map raw_signal ?chg ! 0 = None" by (simp add: raw_signal_def)
  with len have "signal_series ?chg ! 0 = None"
    by (simp add: signal_series_def ffill_def ffill_from_nth_0)
  with c0 ne show ?thesis by (simp add: get_jobless_claims_data_nth)
qed

theorem first_week_undefined_witness:
  "ex_claims_raw \<noteq> [] \<and> claims_change (get_jobless_claims_data ex_claims_raw ! 0) = None \<and>
     signal (get_jobless_claims_data ex_claims_raw ! 0) = None"
proof -
  have h: "ex_claims_raw \<noteq> []" by (simp add: ex_claims_raw_def)
  show ?thesis using h first_week_undefined [OF h] by blast
qed

text \<open>
  C14 (type). Every claims frame the generator returns is well-formed: its index is a
  strictly increasing sequence of Fridays and its signal column is NaN on a leading
  prefix only, whatever the raw series.
\<close>

theorem claims_frame_well_formed: "claims_frame_wf (get_jobless_claims_data raw)"
proof -
  obtain ys where "signal_series (claims_change_pct (map snd (resample_last raw))) =
      replicate (length (takeWhile (\<lambda>x. x = None)
        (map raw_signal (claims_change_pct (map snd (resample_last raw)))))) None @ map Some ys"
    using ffill_prefix unfolding signal_series_def by blast
  moreover have "cr_date r mod 7 = 1" if "r \<in> set (get_jobless_claims_data raw)" for r
  proof -
    have "cr_date r \<in> set (map cr_date (get_jobless_claims_data raw))" using that by simp
    then show ?thesis
      by (simp only: map_cr_date_get_jobless_claims_data) (rule resample_last_fridays)
  qed
  ultimately show ?thesis
    by (simp add: claims_frame_wf_def map_cr_date_get_jobless_claims_data
        map_signal_get_jobless_claims_data dropWhile_replicate_None resample_last_sorted
        list_all_iff)
qed

end
