(* ===== verification/Align.thy ===== *)
theory Align
  imports Signal
begin

text \<open>
  The Series Aligner: lines 27-38 of \<^verbatim>\<open>backtest_strategy\<close>. The weekly price series
  (\<^verbatim>\<open>yf.download(...)['Close'].resample('W-FRI').last()\<close>) is joined to the claims frame
  with \<^verbatim>\<open>pd.concat([prices, jobless_claims], axis=1)\<close>, an outer join on the union of
  the two date indexes in ascending order, and \<^verbatim>\<open>dropna()\<close> keeps the rows where the
  price and the three claims columns are all present (\<open>concat_dropna\<close>). A kept row is a
  \<open>frame_row\<close>, with the column names \<^verbatim>\<open>Price\<close>, \<^verbatim>\<open>Initial Claims\<close>,
  \<^verbatim>\<open>Claims Change %\<close>, \<^verbatim>\<open>Signal\<close> of line 38. The guard of line 33 is
  \<open>no_valid_prices\<close>. The lemmas show that the join equals a filter over the claims
  frame when its dates are sorted (\<open>align_ref\<close>, stated column by column without
  \<open>complete_row\<close>), that the kept dates are exactly the intersection of the valid dates
  of both inputs, sorted and distinct, and that every kept row is made of the price and
  claims columns of its own date.
\<close>

record frame_row =
  fr_date :: day
  price :: real
  fr_claims :: real
  fr_change :: real
  fr_signal :: signal

definition claims_lookup :: "claims_row list \<Rightarrow> day \<Rightarrow> claims_row option" where
  "claims_lookup cs = map_of (map (\<lambda>r. (cr_date r, r)) cs)"

definition complete_row :: "day \<Rightarrow> pyfloat option \<Rightarrow> claims_row option \<Rightarrow> frame_row option" where
  "complete_row d p r =
     (case (p, r) of
        (Some (Some pv), Some cr) \<Rightarrow>
          (case (initial_claims cr, claims_change cr, signal cr) of
             (Some ic, Some ch, Some s) \<Rightarrow>
               Some \<lparr>fr_date = d, price = pv, fr_claims = ic, fr_change = ch, fr_signal = s\<rparr>
           | _ \<Rightarrow> None)
      | _ \<Rightarrow> None)"

definition concat_dropna :: "(day \<times> pyfloat) list \<Rightarrow> claims_row list \<Rightarrow> frame_row list" where
  "concat_dropna prices claims =
     (let idx = sort (remdups (map fst prices @ map cr_date claims))
      in List.map_filter (\<lambda>d. complete_row d (map_of prices d) (claims_lookup claims d)) idx)"

definition no_valid_prices :: "(day \<times> pyfloat) list \<Rightarrow> bool" where
  "no_valid_prices prices \<longleftrightarrow> prices = [] \<or> dropna (map snd prices) = []"

text \<open>
  Reference, stated without \<open>complete_row\<close>: the claims rows, in their order, whose date
  has a non-NaN price and whose three columns are all defined, each read column by column.
\<close>

definition has_price :: "(day \<times> pyfloat) list \<Rightarrow> day \<Rightarrow> bool" where
  "has_price prices d = (case map_of prices d of Some (Some _) \<Rightarrow> True | _ \<Rightarrow> False)"

definition align_ref :: "(day \<times> pyfloat) list \<Rightarrow> claims_row list \<Rightarrow> frame_row list" where
  "align_ref prices claims =
     [\<lparr>fr_date = cr_date r, price = the (the (map_of prices (cr_date r))),
       fr_claims = the (initial_claims r), fr_change = the (claims_change r),
       fr_signal = the (signal r)\<rparr>.
      r \<leftarrow> claims, has_price prices (cr_date r) \<and> initial_claims r \<noteq> None \<and>
        claims_change r \<noteq> None \<and> signal r \<noteq> None]"

subsection \<open>Example data\<close>

text \<open>Daily closes on the Thursdays 14, 21, 28 (weeks ending on Fridays 15, 22, 29).\<close>

definition ex_prices_raw :: "(day \<times> pyfloat) list" where
  "ex_prices_raw = [(14, Some 100), (21, Some 110), (28, Some 99)]"

subsection \<open>Lemmas\<close>

lemma map_filter_complete_row:
  "List.map_filter (\<lambda>r. complete_row (cr_date r) (map_of prices (cr_date r)) (Some r)) claims =
   align_ref prices claims"
  by (induction claims)
     (auto simp: align_ref_def has_price_def complete_row_def map_filter_simps split: option.splits)

lemma complete_row_None [simp]: "complete_row d p None = None"
  by (simp add: complete_row_def split: option.splits)

lemma complete_row_date: "complete_row d p r = Some row \<Longrightarrow> fr_date row = d"
  by (auto simp: complete_row_def split: option.splits)

lemma map_filter_cong_set:
  "(\<And>x. x \<in> set xs \<Longrightarrow> f x = g x) \<Longrightarrow> List.map_filter f xs = List.map_filter g xs"
proof (induction xs)
  case (Cons a xs)
  then have "f a = g a" "List.map_filter f xs = List.map_filter g xs" by auto
  then show ?case by (simp split: option.split)
qed simp

lemma map_filter_filter_None:
  "(\<And>x. x \<in> set xs \<Longrightarrow> \<not> P x \<Longrightarrow> f x = None) \<Longrightarrow>
   List.map_filter f (filter P xs) = List.map_filter f xs"
proof (induction xs)
  case (Cons a xs)
  then have "\<not> P a \<Longrightarrow> f a = None" "List.map_filter f (filter P xs) = List.map_filter f xs"
    by auto
  then show ?case by (cases "P a") (simp_all split: option.split)
qed simp

lemma map_filter_map: "List.map_filter f (map g xs) = List.map_filter (f \<circ> g) xs"
  by (induction xs) (auto split: option.splits)

lemma claims_lookup_self:
  "distinct (map cr_date cs) \<Longrightarrow> r \<in> set cs \<Longrightarrow> claims_lookup cs (cr_date r) = Some r"
  by (simp add: claims_lookup_def comp_def)

lemma claims_lookup_None:
  "d \<notin> set (map cr_date cs) \<Longrightarrow> claims_lookup cs d = None"
  by (simp add: claims_lookup_def map_of_eq_None_iff image_image)

lemma filter_sorted_union:
  assumes "sorted_wrt (<) ys"
  shows "filter (\<lambda>d. d \<in> set ys) (sort (remdups (xs @ ys))) = ys"
proof (rule sorted_distinct_set_unique)
  show "sorted (filter (\<lambda>d. d \<in> set ys) (sort (remdups (xs @ ys))))"
    by (simp add: sorted_filter [where f = id, simplified])
  show "distinct (filter (\<lambda>d. d \<in> set ys) (sort (remdups (xs @ ys))))"
    by simp
  show "sorted ys" "distinct ys" using assms by (simp_all add: strict_sorted_iff)
  show "set (filter (\<lambda>d. d \<in> set ys) (sort (remdups (xs @ ys)))) = set ys"
    by auto
qed

lemma map_fr_date_map_filter:
  "(\<And>d row. f d = Some row \<Longrightarrow> fr_date row = d) \<Longrightarrow>
   map fr_date (List.map_filter f xs) = filter (\<lambda>d. f d \<noteq> None) xs"
  by (induction xs) (auto split: option.split)

lemma concat_dropna_dates_filter:
  "map fr_date (concat_dropna prices claims) =
     filter (\<lambda>d. complete_row d (map_of prices d) (claims_lookup claims d) \<noteq> None)
       (sort (remdups (map fst prices @ map cr_date claims)))"
  by (simp add: concat_dropna_def map_fr_date_map_filter complete_row_date)

lemma complete_row_ne_None:
  "complete_row d p r \<noteq> None \<longleftrightarrow>
     (\<exists>pv. p = Some (Some pv)) \<and>
     (\<exists>cr. r = Some cr \<and> initial_claims cr \<noteq> None \<and> claims_change cr \<noteq> None \<and> signal cr \<noteq> None)"
  by (auto simp: complete_row_def split: option.splits)

lemma concat_dropna_sorted: "sorted_wrt (<) (map fr_date (concat_dropna prices claims))"
  by (simp add: concat_dropna_dates_filter strict_sorted_iff sorted_filter [where f = id, simplified])

lemma concat_dropna_dates:
  "set (map fr_date (concat_dropna prices claims)) =
     {d. \<exists>p. map_of prices d = Some (Some p)} \<inter>
     {d. \<exists>r. claims_lookup claims d = Some r \<and>
          initial_claims r \<noteq> None \<and> claims_change r \<noteq> None \<and> signal r \<noteq> None}"
proof -
  have "map_of prices d = Some v \<Longrightarrow> d \<in> set (map fst prices)" for d v
    by (force dest: map_of_SomeD)
  then show ?thesis
    by (auto simp only: concat_dropna_dates_filter set_filter complete_row_ne_None set_sort
        set_remdups set_append mem_Collect_eq Int_iff Un_iff)
qed

subsection \<open>Properties of the join\<close>

text \<open>
  C15 (equivalence). When the claims frame's dates are strictly increasing (as
  \<^verbatim>\<open>resample\<close> makes them), the outer join on the sorted union of dates followed by
  \<^verbatim>\<open>dropna()\<close> equals the reference: the complete claims rows, in their order, whose
  week has a price.
\<close>

theorem concat_dropna_eq_align_ref:
  assumes "sorted_wrt (<) (map cr_date claims)"
  shows "concat_dropna prices claims = align_ref prices claims"
proof -
  let ?f = "\<lambda>d. complete_row d (map_of prices d) (claims_lookup claims d)"
  let ?ds = "map cr_date claims"
  have dist: "distinct ?ds" using assms by (simp add: strict_sorted_iff)
  have "concat_dropna prices claims =
      List.map_filter ?f (filter (\<lambda>d. d \<in> set ?ds) (sort (remdups (map fst prices @ ?ds))))"
    by (simp add: concat_dropna_def map_filter_filter_None claims_lookup_None)
  also have "\<dots> = List.map_filter ?f ?ds"
    using assms by (simp only: filter_sorted_union)
  also have "\<dots> = List.map_filter (\<lambda>r. complete_row (cr_date r) (map_of prices (cr_date r)) (Some r)) claims"
    using dist by (simp add: map_filter_map comp_def claims_lookup_self cong: map_filter_cong_set)
  also have "\<dots> = align_ref prices claims"
    by (rule map_filter_complete_row)
  finally show ?thesis .
qed

theorem concat_dropna_eq_align_ref_witness:
  "sorted_wrt (<) (map cr_date (get_jobless_claims_data ex_claims_raw)) \<and>
   concat_dropna (resample_last ex_prices_raw) (get_jobless_claims_data ex_claims_raw) =
   align_ref (resample_last ex_prices_raw) (get_jobless_claims_data ex_claims_raw)"
proof -
  have h: "sorted_wrt (<) (map cr_date (get_jobless_claims_data ex_claims_raw))"
    by (simp add: ex_claims_frame)
  show ?thesis using h concat_dropna_eq_align_ref [OF h] by blast
qed

text \<open>
  C16 (functional). The aligned frame has one row per date that has a non-NaN price and a
  claims row whose level, change and signal are all defined: its length is the size of the
  intersection of the two inputs' valid dates.
\<close>

theorem concat_dropna_length:
  "length (concat_dropna prices claims) =
     card ({d. \<exists>p. map_of prices d = Some (Some p)} \<inter>
       {d. \<exists>r. claims_lookup claims d = Some r \<and>
            initial_claims r \<noteq> None \<and> claims_change r \<noteq> None \<and> signal r \<noteq> None})"
proof -
  have "distinct (map fr_date (concat_dropna prices claims))"
    using concat_dropna_sorted by (simp add: strict_sorted_iff)
  then have "card (set (map fr_date (concat_dropna prices claims))) =
      length (concat_dropna prices claims)"
    by (metis distinct_card length_map)
  then show ?thesis by (simp only: concat_dropna_dates)
qed

text \<open>
  C17 (safety). Every row of the aligned frame is made of the inputs of its own date: its
  price is the non-NaN weekly close of that Friday, and its claims, change and signal are
  the defined columns of the claims row with that date.
\<close>

theorem concat_dropna_rows_sound:
  assumes "r \<in> set (concat_dropna prices claims)"
  shows "map_of prices (fr_date r) = Some (Some (price r)) \<and>
    (\<exists>c. c \<in> set claims \<and> cr_date c = fr_date r \<and> initial_claims c = Some (fr_claims r) \<and>
       claims_change c = Some (fr_change r) \<and> signal c = Some (fr_signal r))"
proof -
  obtain d where d: "complete_row d (map_of prices d) (claims_lookup claims d) = Some r"
    using assms by (auto simp: concat_dropna_def in_set_map_filter)
  then obtain c where c: "claims_lookup claims d = Some c"
    by (auto simp: complete_row_def split: option.splits)
  then have "(d, c) \<in> set (map (\<lambda>r. (cr_date r, r)) claims)"
    unfolding claims_lookup_def by (rule map_of_SomeD)
  then have "c \<in> set claims" "cr_date c = d" by auto
  with d c show ?thesis
    by (auto simp: complete_row_def split: option.splits prod.splits)
qed

theorem concat_dropna_rows_sound_witness:
  "\<lparr>fr_date = 15, price = 100, fr_claims = 110, fr_change = 10, fr_signal = Flat\<rparr> \<in>
     set (concat_dropna [(15, Some 100)]
       [\<lparr>cr_date = 15, initial_claims = Some 110, claims_change = Some 10, signal = Some Flat\<rparr>]) \<and>
   map_of [(15::day, Some (100::real))] 15 = Some (Some 100) \<and>
   (\<exists>c. c \<in> set [\<lparr>cr_date = 15, initial_claims = Some 110, claims_change = Some 10, signal = Some Flat\<rparr>] \<and>
      cr_date c = 15 \<and> initial_claims c = Some 110 \<and> claims_change c = Some 10 \<and> signal c = Some Flat)"
proof -
  have h: "\<lparr>fr_date = 15, price = 100, fr_claims = 110, fr_change = 10, fr_signal = Flat\<rparr> \<in>
     set (concat_dropna [(15, Some 100)]
       [\<lparr>cr_date = 15, initial_claims = Some 110, claims_change = Some 10, signal = Some Flat\<rparr>])"
    by (simp add: concat_dropna_def claims_lookup_def complete_row_def)
  show ?thesis using h concat_dropna_rows_sound [OF h] by simp
qed

end
