(* ===== verification/Backtest.thy ===== *)
theory Backtest
  imports Align
begin

text \<open>
  The Backtest Engine: \<^verbatim>\<open>backtest_strategy\<close> (src/Weekly_jobs_strategy.py, lines 25-61).
  \<open>backtest_frame\<close> is lines 40-57 on the aligned frame: period returns
  (\<^verbatim>\<open>pct_change\<close>), strategy returns (the signal lagged by \<^verbatim>\<open>shift(1)\<close> times the
  return), the two cumulative products of \<open>1 + return\<close>, the CAGR over
  \<^verbatim>\<open>weeks = len(df)\<close> rows, the Sharpe ratio with its zero-deviation fallback (its
  division is \<open>py_div\<close>, non-finite on a zero divisor, so the guard matters) and the
  alpha against the benchmark's CAGR; \<^verbatim>\<open>iloc[-1]\<close> on an empty frame raises IndexError.
  \<open>backtest_strategy\<close> is the whole function: the download (an external
  \<open>price_source\<close>, whose exceptions are \<open>Inl\<close> values), the resampling, the guard of
  line 33, the alignment and the engine, with every exception caught by the
  \<^verbatim>\<open>except\<close> of line 59; the \<^verbatim>\<open>None\<close> the function returns is an \<open>Inl\<close> that
  keeps the reason the script prints (\<open>skip_reason\<close>).
\<close>

record bt_result =
  bt_frame :: "frame_row list"
  bt_returns :: "pyfloat list"
  bt_strategy_returns :: "pyfloat list"
  bt_cum_price :: "pyfloat list"
  bt_cum_strategy :: "pyfloat list"
  bt_cagr :: pyfloat
  bt_sharpe :: pyfloat
  bt_alpha :: pyfloat

datatype skip_reason = NoValidPrice | ErrorWith py_error

type_synonym price_source = "string \<Rightarrow> day \<Rightarrow> day \<Rightarrow> py_error + (day \<times> pyfloat) list"

definition frame_returns :: "frame_row list \<Rightarrow> pyfloat list" where
  "frame_returns df = pct_change (map (\<lambda>r. Some (price r)) df)"

definition strategy_returns :: "frame_row list \<Rightarrow> pyfloat list" where
  "strategy_returns df =
     map2 (nan_lift2 (*)) (shift1 (map (\<lambda>r. Some (sig_val (fr_signal r))) df)) (frame_returns df)"

definition one_plus :: "pyfloat list \<Rightarrow> pyfloat list" where
  "one_plus xs = map (map_option (\<lambda>x. 1 + x)) xs"

definition annualise :: "pyfloat \<Rightarrow> nat \<Rightarrow> pyfloat" where
  "annualise c weeks = map_option (\<lambda>y. y - 1) (py_pow c (52 / real weeks))"

definition sharpe_ratio :: "real list \<Rightarrow> pyfloat" where
  "sharpe_ratio rs =
     (case series_std rs of
        None \<Rightarrow> None
      | Some s \<Rightarrow> if s \<noteq> 0 then Option.bind (series_mean rs) (\<lambda>m. map_option (\<lambda>q. q * sqrt 52) (py_div m s))
                 else Some 0)"

definition backtest_frame :: "frame_row list \<Rightarrow> pyfloat \<Rightarrow> py_error + bt_result" where
  "backtest_frame df spy_cagr =
     (let r = frame_returns df;
          s = strategy_returns df;
          cp = cumprod (one_plus r);
          cs = cumprod (one_plus s);
          weeks = length df
      in case iloc_last cs of
           Inl e \<Rightarrow> Inl e
         | Inr last_cs \<Rightarrow>
             (let cagr = annualise last_cs weeks
              in Inr \<lparr>bt_frame = df, bt_returns = r, bt_strategy_returns = s,
                      bt_cum_price = cp, bt_cum_strategy = cs, bt_cagr = cagr,
                      bt_sharpe = sharpe_ratio (dropna s),
                      bt_alpha = nan_lift2 (-) cagr spy_cagr\<rparr>))"

definition backtest_strategy ::
  "price_source \<Rightarrow> string \<Rightarrow> claims_row list \<Rightarrow> pyfloat \<Rightarrow> skip_reason + bt_result" where
  "backtest_strategy fetch ticker claims spy_cagr =
     (if claims = [] then Inl (ErrorWith ValueError)
      else case fetch ticker (Min (set (map cr_date claims))) (Max (set (map cr_date claims))) of
        Inl e \<Rightarrow> Inl (ErrorWith e)
      | Inr raw \<Rightarrow>
          (let prices = resample_last raw
           in if no_valid_prices prices then Inl NoValidPrice
              else case backtest_frame (concat_dropna prices claims) spy_cagr of
                     Inl e \<Rightarrow> Inl (ErrorWith e)
                   | Inr res \<Rightarrow> Inr res))"

subsection \<open>Example data\<close>

text \<open>The scenario of the specification: signals Flat, Long, Long and prices 100, 110, 99.\<close>

definition ex_frame :: "frame_row list" where
  "ex_frame =
     [\<lparr>fr_date = 15, price = 100, fr_claims = 110, fr_change = 10, fr_signal = Flat\<rparr>,
      \<lparr>fr_date = 22, price = 110, fr_claims = 99, fr_change = -10, fr_signal = Long\<rparr>,
      \<lparr>fr_date = 29, price = 99, fr_claims = 99, fr_change = 0, fr_signal = Long\<rparr>]"

text \<open>The same prices with the signal Flat throughout: every strategy return is 0.\<close>

definition ex_flat_frame :: "frame_row list" where
  "ex_flat_frame = map (\<lambda>r. r\<lparr>fr_signal := Flat\<rparr>) ex_frame"

text \<open>A provider whose only observation lies outside the claims window, and an empty one.\<close>

definition ex_far_source :: price_source where
  "ex_far_source t a b = Inr [(100, Some 5)]"

definition ex_empty_source :: price_source where
  "ex_empty_source t a b = Inr []"

subsection \<open>Lemmas\<close>

lemma length_frame_returns [simp, frame_len]: "length (frame_returns df) = length df"
  by (simp add: frame_returns_def)

lemma length_strategy_returns [simp, frame_len]: "length (strategy_returns df) = length df"
  by (simp add: strategy_returns_def)

lemma length_one_plus [simp, frame_len]: "length (one_plus xs) = length xs"
  by (simp add: one_plus_def)

lemma frame_returns_nth:
  "i < length df \<Longrightarrow> frame_returns df ! i =
     (if i = 0 then None else Some (price (df ! i) / price (df ! (i - 1)) - 1))"
  by (auto simp: frame_returns_def pct_change_nth_defined pct_change_nth_0)

lemma strategy_returns_nth:
  "i < length df \<Longrightarrow> strategy_returns df ! i =
     (if i = 0 then None
      else Some (sig_val (fr_signal (df ! (i - 1))) * (price (df ! i) / price (df ! (i - 1)) - 1)))"
  by (simp add: strategy_returns_def frame_returns_nth nth_shift1)

lemma strategy_returns_conv:
  "df \<noteq> [] \<Longrightarrow> strategy_returns df =
     None # map (\<lambda>k. Some (sig_val (fr_signal (df ! (k - 1))) * (price (df ! k) / price (df ! (k - 1)) - 1)))
              [1..<length df]"
  by (rule nth_equalityI) (auto simp: strategy_returns_nth nth_Cons')

lemma cum_strategy_nth:
  assumes "0 < i" "i < length df"
  shows "cumprod (one_plus (strategy_returns df)) ! i =
    Some (\<Prod>k = 1..i. 1 + sig_val (fr_signal (df ! (k - 1))) * (price (df ! k) / price (df ! (k - 1)) - 1))"
proof -
  let ?f = "\<lambda>k. 1 + sig_val (fr_signal (df ! (k - 1))) * (price (df ! k) / price (df ! (k - 1)) - 1)"
  have ne: "df \<noteq> []" using assms by auto
  have "one_plus (strategy_returns df) = None # map Some (map ?f [1..<length df])"
    using ne by (simp add: strategy_returns_conv one_plus_def)
  then have "cumprod (one_plus (strategy_returns df)) ! i =
      cumprod_from 1 (map Some (map ?f [1..<length df])) ! (i - 1)"
    using assms(1) by (simp add: cumprod_def nth_Cons')
  also have "\<dots> = Some (prod_list (take i (map ?f [1..<length df])))"
    using assms cumprod_from_map_Some [of "i - 1" "map ?f [1..<length df]" 1] by simp
  also have "take i (map ?f [1..<length df]) = map ?f [1..<Suc i]"
    using assms by (simp add: take_map take_upt)
  finally show ?thesis by (simp only: prod_list_map_upt_Suc)
qed

lemma one_plus_eq_Nil_iff [simp]: "one_plus xs = [] \<longleftrightarrow> xs = []"
  by (simp add: one_plus_def)

lemma strategy_returns_eq_Nil_iff [simp]: "strategy_returns df = [] \<longleftrightarrow> df = []"
  by (metis length_strategy_returns length_0_conv)

lemma backtest_frame_Nil: "backtest_frame [] spy = Inl IndexError"
  by (simp add: backtest_frame_def Let_def iloc_last_def)

lemma backtest_frame_Inr_ex: "df \<noteq> [] \<Longrightarrow> \<exists>r. backtest_frame df spy = Inr r"
  by (simp add: backtest_frame_def Let_def iloc_last_def)

lemma backtest_frame_InrD:
  assumes "backtest_frame df spy = Inr r"
  shows "df \<noteq> []" "bt_frame r = df" "bt_returns r = frame_returns df"
    "bt_strategy_returns r = strategy_returns df"
    "bt_cum_price r = cumprod (one_plus (frame_returns df))"
    "bt_cum_strategy r = cumprod (one_plus (strategy_returns df))"
    "bt_cagr r = annualise (last (cumprod (one_plus (strategy_returns df)))) (length df)"
    "bt_sharpe r = sharpe_ratio (dropna (strategy_returns df))"
    "bt_alpha r = nan_lift2 (-) (bt_cagr r) spy"
  using assms by (auto simp: backtest_frame_def Let_def iloc_last_def split: if_splits)

lemma backtest_strategy_InrD:
  "backtest_strategy fetch t claims spy = Inr r \<Longrightarrow> \<exists>df. backtest_frame df spy = Inr r"
  by (auto simp: backtest_strategy_def Let_def split: if_splits sum.splits)

lemma strategy_factor_pos:
  assumes "\<forall>row\<in>set df. 0 < price row" "0 < k" "k < length df"
  shows "0 < 1 + sig_val (fr_signal (df ! (k - 1))) * (price (df ! k) / price (df ! (k - 1)) - 1)"
proof -
  have "0 < price (df ! k)" "0 < price (df ! (k - 1))" using assms by auto
  then show ?thesis by (cases "fr_signal (df ! (k - 1))") (simp_all add: sig_val_def)
qed

lemma dropna_strategy_returns:
  "df \<noteq> [] \<Longrightarrow> dropna (strategy_returns df) =
     map (\<lambda>k. sig_val (fr_signal (df ! (k - 1))) * (price (df ! k) / price (df ! (k - 1)) - 1))
       [1..<length df]"
  by (simp add: strategy_returns_conv)

lemma sharpe_ratio_const:
  "2 \<le> length xs \<Longrightarrow> \<forall>x\<in>set xs. x = c \<Longrightarrow> sharpe_ratio xs = Some 0"
  by (simp add: sharpe_ratio_def series_std_const)

lemma take_one_plus: "take n (one_plus xs) = one_plus (take n xs)"
  by (simp add: one_plus_def take_map)

lemma cum_strategy_pos_nth:
  assumes "\<forall>row\<in>set df. 0 < price row" "0 < i" "i < length df"
  shows "\<exists>c. 0 < c \<and> cumprod (one_plus (strategy_returns df)) ! i = Some c"
proof -
  have "0 < (\<Prod>k = 1..i. 1 + sig_val (fr_signal (df ! (k - 1))) * (price (df ! k) / price (df ! (k - 1)) - 1))"
    using assms by (intro prod_pos strategy_factor_pos) auto
  with assms(2,3) show ?thesis by (simp add: cum_strategy_nth)
qed

lemma frame_returns_eq_Nil_iff [simp]: "frame_returns df = [] \<longleftrightarrow> df = []"
  by (metis length_frame_returns length_0_conv)

lemma cagr_of_positive_frame:
  assumes "backtest_frame df spy = Inr r" "\<forall>row\<in>set df. 0 < price row" "2 \<le> length df"
  shows "bt_cagr r = Some ((\<Prod>k = 1..length df - 1.
      1 + sig_val (fr_signal (df ! (k - 1))) * (price (df ! k) / price (df ! (k - 1)) - 1))
      powr (52 / real (length df)) - 1)"
proof -
  let ?P = "\<Prod>k = 1..length df - 1.
      1 + sig_val (fr_signal (df ! (k - 1))) * (price (df ! k) / price (df ! (k - 1)) - 1)"
  have ne: "df \<noteq> []" using assms(3) by auto
  have "last (cumprod (one_plus (strategy_returns df))) =
      cumprod (one_plus (strategy_returns df)) ! (length df - 1)"
    using ne by (simp add: last_conv_nth)
  also have "\<dots> = Some ?P" using assms(3) by (simp add: cum_strategy_nth)
  finally have l: "last (cumprod (one_plus (strategy_returns df))) = Some ?P" .
  have "0 < ?P" using assms by (intro prod_pos strategy_factor_pos) auto
  with l assms(1) show ?thesis by (simp add: backtest_frame_InrD annualise_def)
qed

lemma cum_heads_None:
  assumes "df \<noteq> []"
  shows "cumprod (one_plus (strategy_returns df)) ! 0 = None"
    "cumprod (one_plus (frame_returns df)) ! 0 = None"
proof -
  have "one_plus (strategy_returns df) ! 0 = None" "one_plus (frame_returns df) ! 0 = None"
    using assms by (simp_all add: one_plus_def strategy_returns_nth frame_returns_nth)
  with assms show "cumprod (one_plus (strategy_returns df)) ! 0 = None"
    "cumprod (one_plus (frame_returns df)) ! 0 = None"
    by (simp_all add: cumprod_def cumprod_from_nth_0_None)
qed

subsection \<open>Properties of the engine\<close>

text \<open>
  C1 (functional). Lag semantics: in a backtest result, the strategy return of the first
  row is NaN and that of row \<open>i > 0\<close> is the signal of row \<open>i - 1\<close> (1 for Long,
  0 for Flat) times the return \<open>p\<^sub>i / p\<^sub>i\<^sub>-\<^sub>1 - 1\<close> realised from row \<open>i - 1\<close> to row \<open>i\<close>.
\<close>

theorem strategy_return_lag:
  assumes "backtest_frame df spy = Inr r" "i < length df"
  shows "bt_strategy_returns r ! i =
    (if i = 0 then None
     else Some (sig_val (fr_signal (df ! (i - 1))) * (price (df ! i) / price (df ! (i - 1)) - 1)))"
  using assms by (simp add: backtest_frame_InrD strategy_returns_nth)

theorem strategy_return_lag_witness:
  "\<exists>r. backtest_frame ex_frame None = Inr r \<and> 2 < length ex_frame \<and>
     bt_strategy_returns r ! 2 = (if (2::nat) = 0 then None
       else Some (sig_val (fr_signal (ex_frame ! (2 - 1))) *
                  (price (ex_frame ! 2) / price (ex_frame ! (2 - 1)) - 1)))"
proof -
  obtain r where r: "backtest_frame ex_frame None = Inr r"
    using backtest_frame_Inr_ex [of ex_frame None] by (auto simp: ex_frame_def)
  have l: "2 < length ex_frame" by (simp add: ex_frame_def)
  show ?thesis using r l strategy_return_lag [OF r l] by blast
qed

text \<open>
  C2 (safety). No lookahead: the strategy returns and the cumulative strategy series up to
  row \<open>i\<close> depend only on the prices of rows \<open>0..i\<close> and the signals of rows
  \<open>0..i-1\<close>; changing the signal of row \<open>i\<close> or any later row changes none of them.
\<close>

theorem strategy_no_lookahead:
  assumes "i < length df" "i < length df'"
    "\<forall>k\<le>i. price (df ! k) = price (df' ! k)" "\<forall>k<i. fr_signal (df ! k) = fr_signal (df' ! k)"
  shows "take (Suc i) (strategy_returns df) = take (Suc i) (strategy_returns df') \<and>
    take (Suc i) (cumprod (one_plus (strategy_returns df))) =
    take (Suc i) (cumprod (one_plus (strategy_returns df')))"
proof -
  have s: "take (Suc i) (strategy_returns df) = take (Suc i) (strategy_returns df')"
  proof (rule nth_equalityI)
    show "length (take (Suc i) (strategy_returns df)) = length (take (Suc i) (strategy_returns df'))"
      using assms(1,2) by simp
    fix j assume "j < length (take (Suc i) (strategy_returns df))"
    then have j: "j \<le> i" "j < length df" "j < length df'" using assms(1,2) by auto
    then show "take (Suc i) (strategy_returns df) ! j = take (Suc i) (strategy_returns df') ! j"
      using assms(3,4) by (simp add: strategy_returns_nth)
  qed
  then show ?thesis by (simp add: cumprod_def take_cumprod_from take_one_plus)
qed

theorem strategy_no_lookahead_witness:
  "take (Suc 2) (strategy_returns ex_frame) =
     take (Suc 2) (strategy_returns (ex_frame[2 := (ex_frame ! 2)\<lparr>fr_signal := Flat\<rparr>])) \<and>
   take (Suc 2) (cumprod (one_plus (strategy_returns ex_frame))) =
     take (Suc 2) (cumprod (one_plus (strategy_returns (ex_frame[2 := (ex_frame ! 2)\<lparr>fr_signal := Flat\<rparr>]))))"
proof -
  have h: "2 < length ex_frame" "2 < length (ex_frame[2 := (ex_frame ! 2)\<lparr>fr_signal := Flat\<rparr>])"
    "\<forall>k\<le>2. price (ex_frame ! k) = price (ex_frame[2 := (ex_frame ! 2)\<lparr>fr_signal := Flat\<rparr>] ! k)"
    "\<forall>k<2. fr_signal (ex_frame ! k) = fr_signal (ex_frame[2 := (ex_frame ! 2)\<lparr>fr_signal := Flat\<rparr>] ! k)"
    by (auto simp: ex_frame_def nth_list_update le_Suc_eq less_Suc_eq numeral_eq_Suc)
  show ?thesis by (rule strategy_no_lookahead [OF h])
qed

text \<open>
  C3 (functional). The cumulative strategy series is the running product of
  \<open>1 + s\<^sub>k\<close>: at every row \<open>i > 0\<close> it is the product of \<open>1 + s\<^sub>k\<close> over
  \<open>k = 1..i\<close>, where \<open>s\<^sub>k\<close> is the lagged strategy return of row \<open>k\<close>.
\<close>

theorem cum_strategy_running_product:
  assumes "backtest_frame df spy = Inr r" "0 < i" "i < length df"
  shows "bt_cum_strategy r ! i =
    Some (\<Prod>k = 1..i. 1 + sig_val (fr_signal (df ! (k - 1))) * (price (df ! k) / price (df ! (k - 1)) - 1))"
  using assms by (simp add: backtest_frame_InrD cum_strategy_nth)

theorem cum_strategy_running_product_witness:
  "\<exists>r. backtest_frame ex_frame None = Inr r \<and> 0 < (2::nat) \<and> 2 < length ex_frame \<and>
     bt_cum_strategy r ! 2 = Some (\<Prod>k = 1..2. 1 + sig_val (fr_signal (ex_frame ! (k - 1))) *
       (price (ex_frame ! k) / price (ex_frame ! (k - 1)) - 1))"
proof -
  obtain r where r: "backtest_frame ex_frame None = Inr r"
    using backtest_frame_Inr_ex [of ex_frame None] by (auto simp: ex_frame_def)
  have h: "0 < (2::nat)" "2 < length ex_frame" by (simp_all add: ex_frame_def)
  show ?thesis using r h cum_strategy_running_product [OF r h] by blast
qed

text \<open>
  C4 (roundtrip). With positive prices, the percentage change of the cumulative strategy
  series recovers the strategy return of every row \<open>i \<ge> 2\<close>. (Row 1 is not
  recovered: the cumulative series is NaN, not 1, at row 0.)
\<close>

theorem cum_strategy_roundtrip:
  assumes "backtest_frame df spy = Inr r" "\<forall>row\<in>set df. 0 < price row" "2 \<le> i" "i < length df"
  shows "pct_change (bt_cum_strategy r) ! i = bt_strategy_returns r ! i"
proof -
  let ?f = "\<lambda>k. 1 + sig_val (fr_signal (df ! (k - 1))) * (price (df ! k) / price (df ! (k - 1)) - 1)"
  have i: "i = Suc (i - 1)" using assms(3) by simp
  have c: "bt_cum_strategy r ! i = Some (\<Prod>k = 1..i. ?f k)"
    "bt_cum_strategy r ! (i - 1) = Some (\<Prod>k = 1..i - 1. ?f k)"
    using assms by (simp_all add: backtest_frame_InrD cum_strategy_nth)
  have split: "(\<Prod>k = 1..i. ?f k) = (\<Prod>k = 1..i - 1. ?f k) * ?f i"
    by (subst i, subst prod.cl_ivl_Suc) (use assms(3) in simp)
  have pos: "0 < (\<Prod>k = 1..i - 1. ?f k)"
    using assms by (intro prod_pos strategy_factor_pos) auto
  have "pct_change (bt_cum_strategy r) ! i = Some ((\<Prod>k = 1..i. ?f k) / (\<Prod>k = 1..i - 1. ?f k) - 1)"
    using assms c by (intro pct_change_nth_defined) (auto simp: backtest_frame_InrD)
  also have "\<dots> = Some (?f i - 1)"
    by (subst split) (simp only: mult_div_pos_cancel [OF pos])
  finally show ?thesis using assms by (simp add: backtest_frame_InrD strategy_returns_nth)
qed

theorem cum_strategy_roundtrip_witness:
  "\<exists>r. backtest_frame ex_frame None = Inr r \<and> (\<forall>row\<in>set ex_frame. 0 < price row) \<and>
     2 \<le> (2::nat) \<and> 2 < length ex_frame \<and>
     pct_change (bt_cum_strategy r) ! 2 = bt_strategy_returns r ! 2"
proof -
  obtain r where r: "backtest_frame ex_frame None = Inr r"
    using backtest_frame_Inr_ex [of ex_frame None] by (auto simp: ex_frame_def)
  have h: "\<forall>row\<in>set ex_frame. 0 < price row" "2 \<le> (2::nat)" "2 < length ex_frame"
    by (simp_all add: ex_frame_def)
  show ?thesis using r h cum_strategy_roundtrip [OF r h] by blast
qed

text \<open>
  C5 (functional). With positive prices and at least two rows, the CAGR is the final
  cumulative strategy value raised to \<open>52 / N\<close>, minus 1, with \<open>N\<close> the number of rows
  of the aligned frame, and the alpha is that CAGR minus the benchmark's CAGR.
\<close>

theorem backtest_cagr:
  assumes "backtest_frame df (Some b) = Inr r" "\<forall>row\<in>set df. 0 < price row" "2 \<le> length df"
  shows "bt_cagr r = Some ((\<Prod>k = 1..length df - 1.
      1 + sig_val (fr_signal (df ! (k - 1))) * (price (df ! k) / price (df ! (k - 1)) - 1))
      powr (52 / real (length df)) - 1) \<and>
    bt_alpha r = Some ((\<Prod>k = 1..length df - 1.
      1 + sig_val (fr_signal (df ! (k - 1))) * (price (df ! k) / price (df ! (k - 1)) - 1))
      powr (52 / real (length df)) - 1 - b)"
  using cagr_of_positive_frame [OF assms] backtest_frame_InrD(9) [OF assms(1)] by simp

theorem backtest_cagr_witness:
  "\<exists>r. backtest_frame ex_frame (Some (1/10)) = Inr r \<and> (\<forall>row\<in>set ex_frame. 0 < price row) \<and>
     2 \<le> length ex_frame \<and>
     bt_cagr r = Some ((\<Prod>k = 1..length ex_frame - 1.
      1 + sig_val (fr_signal (ex_frame ! (k - 1))) * (price (ex_frame ! k) / price (ex_frame ! (k - 1)) - 1))
      powr (52 / real (length ex_frame)) - 1) \<and>
     bt_alpha r = Some ((\<Prod>k = 1..length ex_frame - 1.
      1 + sig_val (fr_signal (ex_frame ! (k - 1))) * (price (ex_frame ! k) / price (ex_frame ! (k - 1)) - 1))
      powr (52 / real (length ex_frame)) - 1 - 1/10)"
proof -
  obtain r where r: "backtest_frame ex_frame (Some (1/10)) = Inr r"
    using backtest_frame_Inr_ex [of ex_frame "Some (1/10)"] by (auto simp: ex_frame_def)
  have h: "\<forall>row\<in>set ex_frame. 0 < price row" "2 \<le> length ex_frame"
    by (simp_all add: ex_frame_def)
  show ?thesis using r h backtest_cagr [OF r h] by blast
qed

text \<open>
  C6 (functional). Degenerate series: when every defined strategy return is the same value
  and there are at least two of them, the standard deviation is 0 and the Sharpe ratio is
  the fallback 0, not NaN and no exception.
\<close>

theorem sharpe_zero_variance:
  assumes "backtest_frame df spy = Inr r" "3 \<le> length df"
    "\<forall>k. 0 < k \<and> k < length df \<longrightarrow> bt_strategy_returns r ! k = Some x"
  shows "bt_sharpe r = Some 0"
proof -
  have ne: "df \<noteq> []" using assms(2) by auto
  have "\<forall>v\<in>set (dropna (strategy_returns df)). v = x"
    using assms(1,3) ne by (auto simp: backtest_frame_InrD dropna_strategy_returns strategy_returns_nth)
  moreover have "2 \<le> length (dropna (strategy_returns df))"
    using assms(2) ne by (simp add: dropna_strategy_returns)
  ultimately show ?thesis
    using assms(1) by (simp add: backtest_frame_InrD sharpe_ratio_const)
qed

theorem sharpe_zero_variance_witness:
  "\<exists>r. backtest_frame ex_flat_frame None = Inr r \<and> 3 \<le> length ex_flat_frame \<and>
     (\<forall>k. 0 < k \<and> k < length ex_flat_frame \<longrightarrow> bt_strategy_returns r ! k = Some 0) \<and>
     bt_sharpe r = Some 0"
proof -
  obtain r where r: "backtest_frame ex_flat_frame None = Inr r"
    using backtest_frame_Inr_ex [of ex_flat_frame None] by (auto simp: ex_flat_frame_def ex_frame_def)
  have h: "3 \<le> length ex_flat_frame" by (simp add: ex_flat_frame_def ex_frame_def)
  have fl: "\<forall>j<length ex_flat_frame. fr_signal (ex_flat_frame ! j) = Flat"
    by (simp add: ex_flat_frame_def)
  have "\<forall>k. 0 < k \<and> k < length ex_flat_frame \<longrightarrow> bt_strategy_returns r ! k = Some 0"
    using r fl by (auto simp: backtest_frame_InrD strategy_returns_nth sig_val_def)
  then show ?thesis using r h sharpe_zero_variance [OF r h] by blast
qed

text \<open>
  C7 (error). An instrument whose resampled price series is empty or all NaN (in particular
  one whose download returns an empty sequence) is skipped with the reason
  \<open>NoValidPrice\<close>; no exception escapes.
\<close>

theorem backtest_no_valid_price:
  assumes "claims \<noteq> []" "fetch ticker (Min (set (map cr_date claims))) (Max (set (map cr_date claims))) = Inr raw"
    "no_valid_prices (resample_last raw)"
  shows "backtest_strategy fetch ticker claims spy = Inl NoValidPrice"
  using assms by (simp add: backtest_strategy_def)

theorem backtest_no_valid_price_witness:
  "get_jobless_claims_data ex_claims_raw \<noteq> [] \<and>
   ex_empty_source ''XLY'' (Min (set (map cr_date (get_jobless_claims_data ex_claims_raw))))
     (Max (set (map cr_date (get_jobless_claims_data ex_claims_raw)))) = Inr [] \<and>
   no_valid_prices (resample_last []) \<and>
   backtest_strategy ex_empty_source ''XLY'' (get_jobless_claims_data ex_claims_raw) None = Inl NoValidPrice"
proof -
  have h: "get_jobless_claims_data ex_claims_raw \<noteq> []"
    "ex_empty_source ''XLY'' (Min (set (map cr_date (get_jobless_claims_data ex_claims_raw))))
       (Max (set (map cr_date (get_jobless_claims_data ex_claims_raw)))) = Inr []"
    "no_valid_prices (resample_last [])"
    by (simp_all add: ex_claims_frame ex_empty_source_def no_valid_prices_def)
  show ?thesis
    using h backtest_no_valid_price [where fetch = ex_empty_source and ticker = "''XLY''"
        and claims = "get_jobless_claims_data ex_claims_raw" and raw = "[]" and spy = None, OF h]
    by blast
qed

text \<open>
  C8 (error). When the instrument has valid prices but none on a week with a complete claims
  row, the aligned frame is empty, \<^verbatim>\<open>iloc[-1]\<close> raises IndexError, and the function
  catches it and skips the instrument.
\<close>

theorem backtest_empty_frame:
  assumes "claims \<noteq> []" "fetch ticker (Min (set (map cr_date claims))) (Max (set (map cr_date claims))) = Inr raw"
    "\<not> no_valid_prices (resample_last raw)" "concat_dropna (resample_last raw) claims = []"
  shows "backtest_strategy fetch ticker claims spy = Inl (ErrorWith IndexError)"
  using assms by (simp add: backtest_strategy_def backtest_frame_Nil)

theorem backtest_empty_frame_witness:
  "get_jobless_claims_data ex_claims_raw \<noteq> [] \<and>
   ex_far_source ''TSLA'' (Min (set (map cr_date (get_jobless_claims_data ex_claims_raw))))
     (Max (set (map cr_date (get_jobless_claims_data ex_claims_raw)))) = Inr [(100, Some 5)] \<and>
   \<not> no_valid_prices (resample_last [(100, Some 5)]) \<and>
   concat_dropna (resample_last [(100, Some 5)]) (get_jobless_claims_data ex_claims_raw) = [] \<and>
   backtest_strategy ex_far_source ''TSLA'' (get_jobless_claims_data ex_claims_raw) None =
     Inl (ErrorWith IndexError)"
proof -
  have h: "get_jobless_claims_data ex_claims_raw \<noteq> []"
    "ex_far_source ''TSLA'' (Min (set (map cr_date (get_jobless_claims_data ex_claims_raw))))
       (Max (set (map cr_date (get_jobless_claims_data ex_claims_raw)))) = Inr [(100, Some 5)]"
    "\<not> no_valid_prices (resample_last [(100, Some 5)])"
    "concat_dropna (resample_last [(100, Some 5)]) (get_jobless_claims_data ex_claims_raw) = []"
    by (simp_all add: ex_claims_frame ex_far_source_def no_valid_prices_def resample_last_def
        week_anchor_def concat_dropna_def claims_lookup_def complete_row_def)
  show ?thesis
    using h backtest_empty_frame [where fetch = ex_far_source and ticker = "''TSLA''"
        and claims = "get_jobless_claims_data ex_claims_raw" and raw = "[(100, Some 5)]"
        and spy = None, OF h]
    by blast
qed

subsection \<open>Where the code departs from the specification\<close>

text \<open>
  C30 (functional). Seed: both cumulative series of a backtest result are NaN at row 0, where
  the specification promises the seed 1; pandas' \<^verbatim>\<open>cumprod\<close> keeps the NaN of the
  first return.
\<close>

theorem cum_seed_nan:
  assumes "backtest_frame df spy = Inr r"
  shows "bt_cum_strategy r ! 0 = None \<and> bt_cum_price r ! 0 = None"
  using assms cum_heads_None [OF backtest_frame_InrD(1) [OF assms]] by (simp add: backtest_frame_InrD)

theorem cum_seed_nan_witness:
  "\<exists>r. backtest_frame ex_frame None = Inr r \<and> bt_cum_strategy r ! 0 = None \<and> bt_cum_price r ! 0 = None"
proof -
  obtain r where r: "backtest_frame ex_frame None = Inr r"
    using backtest_frame_Inr_ex [of ex_frame None] by (auto simp: ex_frame_def)
  show ?thesis using r cum_seed_nan [OF r] by blast
qed

text \<open>
  C31 (functional). With a two-row aligned frame there is one strategy return; its sample
  standard deviation is NaN, \<^verbatim>\<open>NaN != 0\<close> holds, and the Sharpe ratio is NaN.
\<close>

theorem sharpe_nan_single_return:
  assumes "backtest_frame df spy = Inr r" "length df = 2"
  shows "bt_sharpe r = None"
proof -
  have "df \<noteq> []" using assms(2) by auto
  then have "length (dropna (strategy_returns df)) = 1"
    using assms(2) by (simp add: dropna_strategy_returns)
  with assms(1) show ?thesis
    by (simp add: backtest_frame_InrD sharpe_ratio_def series_std_def)
qed

theorem sharpe_nan_single_return_witness:
  "\<exists>r. backtest_frame (take 2 ex_frame) None = Inr r \<and> length (take 2 ex_frame) = 2 \<and> bt_sharpe r = None"
proof -
  obtain r where r: "backtest_frame (take 2 ex_frame) None = Inr r"
    using backtest_frame_Inr_ex [of "take 2 ex_frame" None] by (auto simp: ex_frame_def)
  have h: "length (take 2 ex_frame) = 2" by (simp add: ex_frame_def)
  show ?thesis using r h sharpe_nan_single_return [OF r h] by blast
qed

text \<open>
  C32 (functional). Annualisation base: if every strategy return equals \<open>g\<close>, the CAGR is
  \<open>(1 + g) ^ (52 (N - 1) / N) - 1\<close>: the script annualises \<open>N - 1\<close> weekly returns
  as if they spanned \<open>N\<close> weeks.
\<close>

theorem cagr_constant_growth:
  assumes "backtest_frame df spy = Inr r" "\<forall>row\<in>set df. 0 < price row" "2 \<le> length df"
    "\<forall>k. 0 < k \<and> k < length df \<longrightarrow> bt_strategy_returns r ! k = Some g"
  shows "bt_cagr r = Some ((1 + g) powr (52 * (real (length df) - 1) / real (length df)) - 1)"
proof -
  let ?f = "\<lambda>k. 1 + sig_val (fr_signal (df ! (k - 1))) * (price (df ! k) / price (df ! (k - 1)) - 1)"
  have f: "?f k = 1 + g" if "k \<in> {1..length df - 1}" for k
    using that assms(1,3,4) by (auto simp: backtest_frame_InrD strategy_returns_nth)
  then have "(\<Prod>k = 1..length df - 1. ?f k) = (1 + g) ^ (length df - 1)"
    by simp
  moreover have "0 < 1 + g"
    using f [of 1] strategy_factor_pos [of df 1] assms(2,3) by simp
  ultimately have "(\<Prod>k = 1..length df - 1. ?f k) powr (52 / real (length df)) =
      (1 + g) powr (52 * (real (length df) - 1) / real (length df))"
    using assms(3) by (simp add: powr_realpow [symmetric] powr_powr of_nat_diff ac_simps)
  then show ?thesis using cagr_of_positive_frame [OF assms(1-3)] by simp
qed

theorem cagr_constant_growth_witness:
  "\<exists>r. backtest_frame ex_flat_frame None = Inr r \<and> (\<forall>row\<in>set ex_flat_frame. 0 < price row) \<and>
     2 \<le> length ex_flat_frame \<and>
     (\<forall>k. 0 < k \<and> k < length ex_flat_frame \<longrightarrow> bt_strategy_returns r ! k = Some 0) \<and>
     bt_cagr r = Some ((1 + 0) powr (52 * (real (length ex_flat_frame) - 1) / real (length ex_flat_frame)) - 1)"
proof -
  obtain r where r: "backtest_frame ex_flat_frame None = Inr r"
    using backtest_frame_Inr_ex [of ex_flat_frame None] by (auto simp: ex_flat_frame_def ex_frame_def)
  have h: "\<forall>row\<in>set ex_flat_frame. 0 < price row" "2 \<le> length ex_flat_frame"
    by (simp_all add: ex_flat_frame_def ex_frame_def)
  have fl: "\<forall>j<length ex_flat_frame. fr_signal (ex_flat_frame ! j) = Flat"
    by (simp add: ex_flat_frame_def)
  have g: "\<forall>k. 0 < k \<and> k < length ex_flat_frame \<longrightarrow> bt_strategy_returns r ! k = Some 0"
    using r fl by (auto simp: backtest_frame_InrD strategy_returns_nth sig_val_def)
  show ?thesis using r h g cagr_constant_growth [OF r h g] by blast
qed

text \<open>
  C33 (bounds). With positive prices every defined value of the cumulative strategy series is
  positive, so the power in the CAGR never sees a negative base.
\<close>

theorem cum_strategy_pos:
  assumes "backtest_frame df spy = Inr r" "\<forall>row\<in>set df. 0 < price row"
  shows "\<forall>c\<in>set (dropna (bt_cum_strategy r)). 0 < c"
proof
  fix c assume "c \<in> set (dropna (bt_cum_strategy r))"
  then obtain i where i: "i < length df" "cumprod (one_plus (strategy_returns df)) ! i = Some c"
    using assms(1) by (auto simp: set_dropna in_set_conv_nth backtest_frame_InrD)
  have "i \<noteq> 0"
  proof
    assume "i = 0"
    with i cum_heads_None(1) [of df] show False by auto
  qed
  then show "0 < c" using cum_strategy_pos_nth [OF assms(2), of i] i by auto
qed

theorem cum_strategy_pos_witness:
  "\<exists>r. backtest_frame ex_frame None = Inr r \<and> (\<forall>row\<in>set ex_frame. 0 < price row) \<and>
     (\<forall>c\<in>set (dropna (bt_cum_strategy r)). 0 < c)"
proof -
  obtain r where r: "backtest_frame ex_frame None = Inr r"
    using backtest_frame_Inr_ex [of ex_frame None] by (auto simp: ex_frame_def)
  have h: "\<forall>row\<in>set ex_frame. 0 < price row" by (simp add: ex_frame_def)
  show ?thesis using r h cum_strategy_pos [OF r h] by blast
qed

text \<open>
  C9 (functional). A strategy that is Flat in every week holds cash: every strategy return
  after the first is 0, so the cumulative strategy ends at 1, the CAGR is 0, the Sharpe
  ratio is the zero-deviation fallback 0, and the alpha is minus the benchmark CAGR.
\<close>

theorem flat_strategy_earns_nothing:
  assumes "backtest_frame df spy = Inr r" "3 \<le> length df"
    "\<forall>k<length df. fr_signal (df ! k) = Flat"
  shows "bt_cagr r = Some 0 \<and> bt_sharpe r = Some 0 \<and> bt_alpha r = nan_lift2 (-) (Some 0) spy"
proof -
  have ne: "df \<noteq> []" using assms(2) by auto
  have sv: "sig_val (fr_signal (df ! (k - 1))) = 0" if "k < length df" for k
  proof -
    have "k - 1 < length df" using that by auto
    then show ?thesis using assms(3) by (simp add: sig_val_def)
  qed
  have z: "dropna (strategy_returns df) = map (\<lambda>k. 0) [1..<length df]"
    unfolding dropna_strategy_returns [OF ne] by (rule map_cong [OF refl]) (simp add: sv [simplified])
  have sh: "bt_sharpe r = Some 0"
    using assms(1,2) z sharpe_ratio_const [of "map (\<lambda>k. 0) [1..<length df]" 0]
    by (simp add: backtest_frame_InrD)
  have "last (cumprod (one_plus (strategy_returns df))) = cumprod (one_plus (strategy_returns df)) ! (length df - 1)"
    using ne by (simp add: last_conv_nth cumprod_eq_Nil_iff)
  also have "\<dots> = Some (\<Prod>k = 1..length df - 1.
      1 + sig_val (fr_signal (df ! (k - 1))) * (price (df ! k) / price (df ! (k - 1)) - 1))"
    using assms(2) by (intro cum_strategy_nth) auto
  also have "(\<Prod>k = 1..length df - 1.
      1 + sig_val (fr_signal (df ! (k - 1))) * (price (df ! k) / price (df ! (k - 1)) - 1)) = 1"
    by (rule prod.neutral) (use assms(2) in \<open>auto simp: sv [simplified]\<close>)
  finally have cg: "bt_cagr r = Some 0"
    using assms(1) by (simp add: backtest_frame_InrD annualise_def)
  then show ?thesis using sh backtest_frame_InrD(9) [OF assms(1)] by simp
qed

theorem flat_strategy_earns_nothing_witness:
  "\<exists>r. backtest_frame ex_flat_frame (Some (1/10)) = Inr r \<and> 3 \<le> length ex_flat_frame \<and>
     (\<forall>k<length ex_flat_frame. fr_signal (ex_flat_frame ! k) = Flat) \<and>
     bt_cagr r = Some 0 \<and> bt_sharpe r = Some 0 \<and> bt_alpha r = nan_lift2 (-) (Some 0) (Some (1/10))"
proof -
  obtain r where r: "backtest_frame ex_flat_frame (Some (1/10)) = Inr r"
    using backtest_frame_Inr_ex [of ex_flat_frame "Some (1/10)"] by (auto simp: ex_flat_frame_def ex_frame_def)
  have h1: "3 \<le> length ex_flat_frame" by (simp add: ex_flat_frame_def ex_frame_def)
  have h2: "\<forall>k<length ex_flat_frame. fr_signal (ex_flat_frame ! k) = Flat"
    by (simp add: ex_flat_frame_def)
  note h = h1 h2
  show ?thesis using r h flat_strategy_earns_nothing [OF r h] by blast
qed

end
