(* ===== verification/Benchmark.thy ===== *)
theory Benchmark
  imports Backtest
begin

text \<open>
  The Benchmark Calculator: lines 70-80 of the script. SPY's weekly closes are resampled,
  NaN weeks dropped (\<open>dropna_rows\<close>: \<^verbatim>\<open>Series.dropna()\<close> keeps the dates), the
  buy-and-hold cumulative return is the cumulative product of \<open>1 + pct_change\<close>, and the
  CAGR uses the same annualisation as the engine with the benchmark's own row count. The
  script runs this at top level, outside any \<^verbatim>\<open>try\<close>: the IndexError of
  \<^verbatim>\<open>iloc[-1]\<close> on an empty series is an \<open>Inl\<close> that aborts the run
  (\<open>Batch.main\<close>). The record keeps the series' index (\<open>spy_dates\<close>, the Fridays
  with a valid close) beside its values, as the plot draws one against the other. The lemmas show that the cumulative value at row \<open>i\<close> is the price
  relative \<open>p\<^sub>i / p\<^sub>0\<close> and that the CAGR is \<open>(p\<^sub>last / p\<^sub>0)\<^bsup>52/N\<^esup> - 1\<close>.
\<close>

record benchmark_result =
  spy_dates :: "day list"
  spy_cumulative :: "pyfloat list"
  spy_cagr :: pyfloat

fun dropna_rows :: "(day \<times> pyfloat) list \<Rightarrow> (day \<times> real) list" where
  "dropna_rows [] = []"
| "dropna_rows ((d, None) # xs) = dropna_rows xs"
| "dropna_rows ((d, Some v) # xs) = (d, v) # dropna_rows xs"

definition spy_benchmark :: "(day \<times> pyfloat) list \<Rightarrow> py_error + benchmark_result" where
  "spy_benchmark raw =
     (let spy_prices = dropna_rows (resample_last raw);
          spy_returns = pct_change (map (\<lambda>(d, p). Some p) spy_prices);
          cum = cumprod (one_plus spy_returns);
          weeks_spy = length cum
      in case iloc_last cum of
           Inl e \<Rightarrow> Inl e
         | Inr c \<Rightarrow> Inr \<lparr>spy_dates = map fst spy_prices, spy_cumulative = cum,
                         spy_cagr = annualise c weeks_spy\<rparr>)"

definition spy_price_list :: "(day \<times> pyfloat) list \<Rightarrow> real list" where
  "spy_price_list raw = map snd (dropna_rows (resample_last raw))"

subsection \<open>Example data\<close>

text \<open>52 weekly SPY closes on Fridays (day 1 + 7k): 1 for 51 weeks, then 1.1.\<close>

definition ex_spy_raw :: "(day \<times> pyfloat) list" where
  "ex_spy_raw = map (\<lambda>k. (7 * int k + 1, Some (if k = 51 then 11/10 else 1))) [0..<52]"

subsection \<open>Lemmas\<close>

lemma map_case_Some_snd: "map (\<lambda>(d, p). Some p) xs = map Some (map snd xs)"
  by (induction xs) auto

lemma spy_benchmark_InrD:
  assumes "spy_benchmark raw = Inr b"
  shows "spy_price_list raw \<noteq> []"
    "spy_cumulative b = cumprod (one_plus (pct_change (map Some (spy_price_list raw))))"
    "spy_cagr b = annualise (last (spy_cumulative b)) (length (spy_price_list raw))"
  using assms by (auto simp: spy_benchmark_def spy_price_list_def Let_def iloc_last_def
      map_case_Some_snd split: if_splits)

lemma spy_benchmark_dates_length:
  "spy_benchmark raw = Inr b \<Longrightarrow> length (spy_dates b) = length (spy_cumulative b)"
  by (auto simp: spy_benchmark_def Let_def iloc_last_def split: if_splits)

lemma buy_hold_cum_nth:
  assumes "\<forall>p\<in>set ps. 0 < p" "0 < i" "i < length ps"
  shows "cumprod (one_plus (pct_change (map Some ps))) ! i = Some (ps ! i / ps ! 0)"
proof -
  obtain p0 qs where ps: "ps = p0 # qs" using assms(3) by (cases ps) auto
  have nz: "\<forall>x\<in>set (p0 # qs). x \<noteq> 0" using assms(1) ps by auto
  have "one_plus (pct_change (map Some ps)) = None # map Some (map2 (\<lambda>c q. c / q) qs (p0 # qs))"
    using nz by (simp add: ps pct_change_defined one_plus_def case_prod_beta)
  then have "cumprod (one_plus (pct_change (map Some ps))) ! i =
      Some (prod_list (take i (map2 (\<lambda>c q. c / q) qs (p0 # qs))))"
    using assms(2,3) ps cumprod_from_map_Some [of "i - 1" "map2 (\<lambda>c q. c / q) qs (p0 # qs)" 1]
    by (simp add: cumprod_def nth_Cons')
  also have "\<dots> = Some ((p0 # qs) ! i / p0)"
    using nz assms(3) ps by (simp add: prod_ratios_telescope)
  finally show ?thesis using ps by simp
qed

lemma spy_benchmark_Inr_ex: "spy_price_list raw \<noteq> [] \<Longrightarrow> \<exists>b. spy_benchmark raw = Inr b"
  by (simp add: spy_benchmark_def spy_price_list_def Let_def iloc_last_def)

lemma ex_spy_prices: "spy_price_list ex_spy_raw = replicate 51 1 @ [11/10]"
  by (simp add: spy_price_list_def ex_spy_raw_def resample_last_def week_anchor_def
      numeral_eq_Suc upt_rec)

subsection \<open>Properties of the benchmark\<close>

text \<open>
  C18 (functional). With positive SPY closes \<open>p\<^sub>0, p\<^sub>1, ...\<close> (after dropping NaN weeks),
  the buy-and-hold cumulative return at row \<open>i > 0\<close> is the price relative
  \<open>p\<^sub>i / p\<^sub>0\<close>: the cumulative product of \<open>1 + pct_change\<close> telescopes.
\<close>

theorem benchmark_price_relative:
  assumes "spy_benchmark raw = Inr b" "\<forall>p\<in>set (spy_price_list raw). 0 < p"
    "0 < i" "i < length (spy_price_list raw)"
  shows "spy_cumulative b ! i = Some (spy_price_list raw ! i / spy_price_list raw ! 0)"
  using assms buy_hold_cum_nth [OF assms(2-4)] by (simp add: spy_benchmark_InrD)

theorem benchmark_price_relative_witness:
  "\<exists>b. spy_benchmark ex_spy_raw = Inr b \<and> 0 < (51::nat) \<and> 51 < length (spy_price_list ex_spy_raw) \<and>
     spy_cumulative b ! 51 = Some (spy_price_list ex_spy_raw ! 51 / spy_price_list ex_spy_raw ! 0)"
proof -
  obtain b where b: "spy_benchmark ex_spy_raw = Inr b"
    using spy_benchmark_Inr_ex [of ex_spy_raw] by (auto simp: ex_spy_prices)
  have h: "\<forall>p\<in>set (spy_price_list ex_spy_raw). 0 < p" "0 < (51::nat)" "51 < length (spy_price_list ex_spy_raw)"
    by (simp_all add: ex_spy_prices)
  show ?thesis using b h benchmark_price_relative [OF b h] by blast
qed

text \<open>
  C19 (functional). With positive closes and at least two weeks, the benchmark CAGR is
  \<open>(p\<^sub>last / p\<^sub>0)\<^bsup>52/N\<^esup> - 1\<close>, \<open>N\<close> the number of weekly closes.
\<close>

theorem benchmark_cagr:
  assumes "spy_benchmark raw = Inr b" "\<forall>p\<in>set (spy_price_list raw). 0 < p"
    "2 \<le> length (spy_price_list raw)"
  shows "spy_cagr b = Some ((last (spy_price_list raw) / hd (spy_price_list raw))
      powr (52 / real (length (spy_price_list raw))) - 1)"
proof -
  let ?ps = "spy_price_list raw"
  have ne: "?ps \<noteq> []" using assms(3) by auto
  have "last (spy_cumulative b) = spy_cumulative b ! (length ?ps - 1)"
    using assms(1) ne by (simp add: spy_benchmark_InrD last_conv_nth)
  also have "\<dots> = Some (?ps ! (length ?ps - 1) / ?ps ! 0)"
    using assms buy_hold_cum_nth [OF assms(2), of "length ?ps - 1"] by (simp add: spy_benchmark_InrD)
  also have "\<dots> = Some (last ?ps / hd ?ps)" using ne by (simp add: last_conv_nth hd_conv_nth)
  finally have l: "last (spy_cumulative b) = Some (last ?ps / hd ?ps)" .
  have "0 < last ?ps / hd ?ps" using assms(2) ne by simp
  with l assms(1) show ?thesis by (simp add: spy_benchmark_InrD annualise_def)
qed

theorem benchmark_cagr_witness:
  "\<exists>b. spy_benchmark ex_spy_raw = Inr b \<and> 2 \<le> length (spy_price_list ex_spy_raw) \<and>
     spy_cagr b = Some ((last (spy_price_list ex_spy_raw) / hd (spy_price_list ex_spy_raw))
       powr (52 / real (length (spy_price_list ex_spy_raw))) - 1)"
proof -
  obtain b where b: "spy_benchmark ex_spy_raw = Inr b"
    using spy_benchmark_Inr_ex [of ex_spy_raw] by (auto simp: ex_spy_prices)
  have h: "\<forall>p\<in>set (spy_price_list ex_spy_raw). 0 < p" "2 \<le> length (spy_price_list ex_spy_raw)"
    by (simp_all add: ex_spy_prices)
  show ?thesis using b h benchmark_cagr [OF b h] by blast
qed

text \<open>
  C20 (error). If SPY has no non-NaN weekly close (in particular an empty download),
  \<^verbatim>\<open>iloc[-1]\<close> raises IndexError; nothing in the script catches it.
\<close>

theorem benchmark_empty_error:
  "spy_price_list raw = [] \<Longrightarrow> spy_benchmark raw = Inl IndexError"
  by (simp add: spy_benchmark_def spy_price_list_def Let_def iloc_last_def)

theorem benchmark_empty_error_witness:
  "spy_price_list [] = [] \<and> spy_benchmark [] = Inl IndexError"
proof -
  have h: "spy_price_list [] = []" by (simp add: spy_price_list_def)
  show ?thesis using h benchmark_empty_error [OF h] by blast
qed

end
