(* ===== verification/Batch.thy ===== *)
theory Batch
  imports Benchmark
begin

text \<open>
  The Batch Runner and the top level of the script (lines 63-88). The loop of lines 84-88
  runs \<^verbatim>\<open>backtest_strategy\<close> for each ticker and stores every result that is not
  \<^verbatim>\<open>None\<close> in the dictionary \<^verbatim>\<open>results\<close>; a skipped ticker leaves only the message
  the function printed. The state of the loop is a \<open>batch_state\<close> record: the dictionary
  as a map with its keys in insertion order (a Python dictionary keeps the order in which
  keys were first inserted, and \<^verbatim>\<open>results.items()\<close> of the plotting code follows it:
  \<open>dict_items\<close>), and the printed skips as a list; \<open>batch_step\<close> is one iteration and
  \<open>run_batch\<close> the loop. \<open>main\<close> is lines 64-88 without the plotting: the FRED series
  (an external result, \<open>Inl\<close> when \<^verbatim>\<open>fred.get_series\<close> raises), the claims frame, the
  SPY benchmark, then the loop over \<open>tickers\<close>; nothing at top level catches an exception,
  so every \<open>Inl\<close> aborts the run. \<open>batch_spec\<close> is the abstract specification of the
  loop: the map from each ticker to its successful backtest.
\<close>

record batch_state =
  results :: "string \<rightharpoonup> bt_result"
  result_keys :: "string list"
  skipped :: "(string \<times> skip_reason) list"

definition init_batch :: batch_state where
  "init_batch = \<lparr>results = Map.empty, result_keys = [], skipped = []\<rparr>"

definition batch_step ::
  "price_source \<Rightarrow> claims_row list \<Rightarrow> pyfloat \<Rightarrow> batch_state \<Rightarrow> string \<Rightarrow> batch_state" where
  "batch_step fetch claims spy st t =
     (case backtest_strategy fetch t claims spy of
        Inl why \<Rightarrow> st\<lparr>skipped := skipped st @ [(t, why)]\<rparr>
      | Inr r \<Rightarrow> st\<lparr>results := (results st)(t \<mapsto> r),
                   result_keys := (case results st t of
                                     None \<Rightarrow> result_keys st @ [t]
                                   | Some _ \<Rightarrow> result_keys st)\<rparr>)"

fun run_batch ::
  "price_source \<Rightarrow> claims_row list \<Rightarrow> pyfloat \<Rightarrow> string list \<Rightarrow> batch_state \<Rightarrow> batch_state" where
  "run_batch fetch claims spy [] st = st"
| "run_batch fetch claims spy (t # ts) st = run_batch fetch claims spy ts (batch_step fetch claims spy st t)"

definition tickers :: "string list" where
  "tickers = [''XLY'', ''XLF'', ''IWM'', ''AMZN'', ''TSLA'', ''HD'', ''JPM'', ''WFC'', ''CAT'']"

definition main ::
  "py_error + (day \<times> pyfloat) list \<Rightarrow> price_source \<Rightarrow> py_error + benchmark_result \<times> batch_state" where
  "main fred fetch =
     (case fred of
        Inl e \<Rightarrow> Inl e
      | Inr claims_raw \<Rightarrow>
          (let jobless_claims = get_jobless_claims_data claims_raw
           in if jobless_claims = [] then Inl ValueError
              else case fetch ''SPY'' (Min (set (map cr_date jobless_claims)))
                                     (Max (set (map cr_date jobless_claims))) of
                     Inl e \<Rightarrow> Inl e
                   | Inr spy_raw \<Rightarrow>
                       (case spy_benchmark spy_raw of
                          Inl e \<Rightarrow> Inl e
                        | Inr b \<Rightarrow> Inr (b, run_batch fetch jobless_claims (spy_cagr b) tickers init_batch))))"

text \<open>
  The dictionary's view \<^verbatim>\<open>results.items()\<close>, in the key order of the dictionary.
\<close>

definition dict_items :: "batch_state \<Rightarrow> (string \<times> bt_result) list" where
  "dict_items st = List.map_filter (\<lambda>t. map_option (Pair t) (results st t)) (result_keys st)"

text \<open>Abstract specification of the loop.\<close>

definition success :: "'e + 'a \<Rightarrow> 'a option" where
  "success x = (case x of Inl _ \<Rightarrow> None | Inr a \<Rightarrow> Some a)"

definition batch_spec ::
  "price_source \<Rightarrow> claims_row list \<Rightarrow> pyfloat \<Rightarrow> string list \<Rightarrow> (string \<rightharpoonup> bt_result)" where
  "batch_spec fetch claims spy ts =
     (\<lambda>t. if t \<in> set ts then success (backtest_strategy fetch t claims spy) else None)"

subsection \<open>Example data\<close>

text \<open>A provider with SPY and XLY data and nothing for the other tickers.\<close>

definition ex_source :: price_source where
  "ex_source t a b =
     (if t = ''SPY'' then Inr ex_spy_raw else if t = ''XLY'' then Inr ex_prices_raw else Inr [])"

subsection \<open>Lemmas\<close>

lemma results_run_batch:
  "results (run_batch fetch claims spy ts st) =
     (\<lambda>t. if t \<in> set ts then (case backtest_strategy fetch t claims spy of
                                Inl _ \<Rightarrow> results st t | Inr r \<Rightarrow> Some r)
          else results st t)"
proof (induction ts arbitrary: st)
  case Nil
  then show ?case by simp
next
  case (Cons t ts)
  show ?case
    by (rule ext) (auto simp: Cons.IH batch_step_def split: sum.splits)
qed

lemma skipped_run_batch:
  "skipped (run_batch fetch claims spy ts st) =
     skipped st @ concat (map (\<lambda>t. case backtest_strategy fetch t claims spy of
                                     Inl why \<Rightarrow> [(t, why)] | Inr _ \<Rightarrow> []) ts)"
proof (induction ts arbitrary: st)
  case (Cons t ts)
  then show ?case by (simp add: batch_step_def split: sum.splits)
qed simp

lemma backtest_strategy_empty_download:
  "claims \<noteq> [] \<Longrightarrow> fetch t (Min (set (map cr_date claims))) (Max (set (map cr_date claims))) = Inr [] \<Longrightarrow>
   backtest_strategy fetch t claims spy = Inl NoValidPrice"
  by (simp add: backtest_strategy_def no_valid_prices_def)

lemma ex_source_others: "t \<noteq> ''SPY'' \<Longrightarrow> t \<noteq> ''XLY'' \<Longrightarrow> ex_source t a b = Inr []"
  by (simp add: ex_source_def)

lemma result_keys_run_batch:
  "distinct ts \<Longrightarrow> \<forall>t\<in>set ts. results st t = None \<Longrightarrow>
   result_keys (run_batch fetch claims spy ts st) =
     result_keys st @ filter (\<lambda>t. success (backtest_strategy fetch t claims spy) \<noteq> None) ts"
proof (induction ts arbitrary: st)
  case (Cons t ts)
  let ?st' = "batch_step fetch claims spy st t"
  have "\<forall>u\<in>set ts. results ?st' u = None"
    using Cons.prems by (auto simp: batch_step_def split: sum.splits)
  then have "result_keys (run_batch fetch claims spy ts ?st') =
      result_keys ?st' @ filter (\<lambda>t. success (backtest_strategy fetch t claims spy) \<noteq> None) ts"
    using Cons.prems by (intro Cons.IH) auto
  then show ?case
    using Cons.prems by (simp add: batch_step_def success_def split: sum.splits)
qed simp

lemma dict_items_run_batch:
  assumes "distinct ts"
  shows "dict_items (run_batch fetch claims spy ts init_batch) =
    List.map_filter (\<lambda>t. map_option (Pair t) (success (backtest_strategy fetch t claims spy))) ts"
proof -
  let ?ok = "\<lambda>t. success (backtest_strategy fetch t claims spy) \<noteq> None"
  let ?f = "\<lambda>t. map_option (Pair t) (success (backtest_strategy fetch t claims spy))"
  have keys: "result_keys (run_batch fetch claims spy ts init_batch) = filter ?ok ts"
    using assms by (simp add: result_keys_run_batch init_batch_def)
  have "dict_items (run_batch fetch claims spy ts init_batch) = List.map_filter ?f (filter ?ok ts)"
    unfolding dict_items_def keys
    by (rule map_filter_cong_set)
       (auto simp: results_run_batch init_batch_def success_def split: sum.splits)
  also have "\<dots> = List.map_filter ?f ts"
    by (rule map_filter_filter_None) simp
  finally show ?thesis .
qed

subsection \<open>Properties of the loop\<close>

text \<open>
  C21 (refinement). The loop implements its specification: starting from the empty
  dictionary, the final \<^verbatim>\<open>results\<close> maps exactly the tickers of the list whose backtest
  succeeded, each to its own result.
\<close>

theorem batch_refines_spec:
  "results (run_batch fetch claims spy ts init_batch) = batch_spec fetch claims spy ts"
  by (rule ext) (simp add: results_run_batch init_batch_def batch_spec_def success_def split: sum.splits)

text \<open>
  C22 (safety). No ticker is lost and none is silently absorbed: after the loop every ticker
  of the list is in the result dictionary or in the printed skips, never in both, and the
  skips record exactly the tickers whose backtest failed, with the reason it gave.
\<close>

theorem batch_every_ticker_reported:
  "(t \<in> set ts \<longleftrightarrow> t \<in> dom (results (run_batch fetch claims spy ts init_batch)) \<or>
      t \<in> fst ` set (skipped (run_batch fetch claims spy ts init_batch))) \<and>
   \<not> (t \<in> dom (results (run_batch fetch claims spy ts init_batch)) \<and>
      t \<in> fst ` set (skipped (run_batch fetch claims spy ts init_batch))) \<and>
   ((t, why) \<in> set (skipped (run_batch fetch claims spy ts init_batch)) \<longleftrightarrow>
      t \<in> set ts \<and> backtest_strategy fetch t claims spy = Inl why)"
  by (auto simp: results_run_batch skipped_run_batch init_batch_def image_iff split: sum.splits if_splits)

text \<open>
  C23 (error). The scenario of the specification: an instrument whose price download returns
  an empty sequence gets no entry in the result dictionary, is reported as skipped, and the
  loop goes on: the dictionary is the one the loop builds without that instrument.
\<close>

theorem batch_empty_download_skipped:
  assumes "claims \<noteq> []"
    "fetch t (Min (set (map cr_date claims))) (Max (set (map cr_date claims))) = Inr []"
  shows "results (run_batch fetch claims spy (pre @ t # post) init_batch) =
      results (run_batch fetch claims spy (pre @ post) init_batch) \<and>
    (t, NoValidPrice) \<in> set (skipped (run_batch fetch claims spy (pre @ t # post) init_batch))"
proof -
  have bt: "backtest_strategy fetch t claims spy = Inl NoValidPrice"
    using assms by (rule backtest_strategy_empty_download)
  then show ?thesis
    by (auto simp: results_run_batch skipped_run_batch init_batch_def split: sum.splits)
qed

theorem batch_empty_download_skipped_witness:
  "results (run_batch ex_source (get_jobless_claims_data ex_claims_raw) None [''XLY'', ''TSLA'', ''HD''] init_batch) =
     results (run_batch ex_source (get_jobless_claims_data ex_claims_raw) None [''XLY'', ''HD''] init_batch) \<and>
   (''TSLA'', NoValidPrice) \<in>
     set (skipped (run_batch ex_source (get_jobless_claims_data ex_claims_raw) None [''XLY'', ''TSLA'', ''HD''] init_batch))"
proof -
  have h: "get_jobless_claims_data ex_claims_raw \<noteq> []"
    "ex_source ''TSLA'' (Min (set (map cr_date (get_jobless_claims_data ex_claims_raw))))
       (Max (set (map cr_date (get_jobless_claims_data ex_claims_raw)))) = Inr []"
    by (simp_all add: ex_claims_frame ex_source_def)
  show ?thesis
    using batch_empty_download_skipped [where pre = "[''XLY'']" and post = "[''HD'']" and spy = None
        and fetch = ex_source and t = "''TSLA''" and claims = "get_jobless_claims_data ex_claims_raw", OF h]
    by simp
qed

text \<open>
  C24 (functional). The order of the tickers matters for display only: two ticker lists with
  the same elements give the same result dictionary.
\<close>

theorem batch_order_independent:
  "set ts = set ts' \<Longrightarrow>
   results (run_batch fetch claims spy ts init_batch) = results (run_batch fetch claims spy ts' init_batch)"
  by (simp add: results_run_batch)

theorem batch_order_independent_witness:
  "set [''XLY'', ''TSLA''] = set [''TSLA'', ''XLY''] \<and>
   results (run_batch ex_source (get_jobless_claims_data ex_claims_raw) None [''XLY'', ''TSLA''] init_batch) =
   results (run_batch ex_source (get_jobless_claims_data ex_claims_raw) None [''TSLA'', ''XLY''] init_batch)"
proof -
  have h: "set [''XLY'', ''TSLA''] = set [''TSLA'', ''XLY'']" by auto
  show ?thesis using h batch_order_independent [OF h] by blast
qed

text \<open>
  C25 (error). The benchmark is computed at top level, outside any \<^verbatim>\<open>try\<close>: when SPY has
  no valid weekly close the IndexError aborts the whole run before any instrument is
  evaluated, although each instrument's failures are isolated.
\<close>

theorem main_benchmark_abort:
  assumes "get_jobless_claims_data raw \<noteq> []"
    "fetch ''SPY'' (Min (set (map cr_date (get_jobless_claims_data raw))))
       (Max (set (map cr_date (get_jobless_claims_data raw)))) = Inr spy_raw"
    "spy_price_list spy_raw = []"
  shows "main (Inr raw) fetch = Inl IndexError"
  using assms by (simp add: main_def spy_benchmark_def spy_price_list_def Let_def iloc_last_def)

theorem main_benchmark_abort_witness:
  "main (Inr ex_claims_raw) ex_empty_source = Inl IndexError"
proof -
  have h: "get_jobless_claims_data ex_claims_raw \<noteq> []"
    "ex_empty_source ''SPY'' (Min (set (map cr_date (get_jobless_claims_data ex_claims_raw))))
       (Max (set (map cr_date (get_jobless_claims_data ex_claims_raw)))) = Inr []"
    "spy_price_list [] = []"
    by (simp_all add: ex_claims_frame ex_empty_source_def spy_price_list_def)
  show ?thesis
    by (rule main_benchmark_abort [where raw = ex_claims_raw and fetch = ex_empty_source
          and spy_raw = "[]", OF h])
qed

end
