(* ===== verification/Plot.thy ===== *)
theory Plot
  imports Batch
begin

text \<open>
  The final plotting of lines 91-104: the figure the script draws, as the list of
  matplotlib calls it makes (\<open>plot_cmd\<close>), in order. A \<^verbatim>\<open>plt.plot\<close> of a Series
  draws its values against its index: \<open>PlotLine\<close> holds the points (date, value), the
  label and the line style. The labels are kept as the values they format
  (\<^verbatim>\<open>f'... {spy_cagr:.2%}'\<close> and \<^verbatim>\<open>f"{ticker} ({alpha:.2%}, {sharpe:.2f})"\<close>), not as the
  rendered strings: the decimal formatting of floats is not modelled. \<open>final_plot\<close>
  draws the SPY line dashed with width 2, then one line per entry of
  \<^verbatim>\<open>results.items()\<close> (\<open>Batch.dict_items\<close>, in the dictionary's insertion order), then
  the title, axis labels, legend, grid, layout and \<^verbatim>\<open>plt.show()\<close>. \<open>script\<close> is the
  whole script: \<open>Batch.main\<close> followed by the plot, nothing drawn when \<open>main\<close> raises.
  \<open>plotted\<close> reads back the lines of a figure with their labels.
\<close>

datatype line_style = DefaultLine | DashedLine nat

datatype plot_label = SpyLabel pyfloat | TickerLabel string pyfloat pyfloat

datatype plot_cmd =
    Figure nat nat
  | PlotLine "(day \<times> pyfloat) list" plot_label line_style
  | Title string
  | XLabel string
  | YLabel string
  | Legend
  | Grid bool
  | TightLayout
  | Show

definition spy_line :: "benchmark_result \<Rightarrow> plot_cmd" where
  "spy_line b = PlotLine (zip (spy_dates b) (spy_cumulative b)) (SpyLabel (spy_cagr b)) (DashedLine 2)"

definition ticker_line :: "string \<times> bt_result \<Rightarrow> plot_cmd" where
  "ticker_line tr =
     (case tr of (t, r) \<Rightarrow>
        PlotLine (zip (map fr_date (bt_frame r)) (bt_cum_strategy r))
          (TickerLabel t (bt_alpha r) (bt_sharpe r)) DefaultLine)"

definition plot_title :: string where
  "plot_title = ''Jobless Claims-Based Strategies vs SPY Buy & Hold'' @ [char_of (10::nat)] @
     ''(Alpha & Sharpe Included)''"

definition final_plot :: "benchmark_result \<Rightarrow> batch_state \<Rightarrow> plot_cmd list" where
  "final_plot b st =
     [Figure 14 8, spy_line b] @ map ticker_line (dict_items st) @
     [Title plot_title, XLabel ''Date'', YLabel ''Cumulative Return'', Legend, Grid True,
      TightLayout, Show]"

definition script :: "py_error + (day \<times> pyfloat) list \<Rightarrow> price_source \<Rightarrow> py_error + plot_cmd list" where
  "script fred fetch = (case main fred fetch of Inl e \<Rightarrow> Inl e | Inr (b, st) \<Rightarrow> Inr (final_plot b st))"

fun plotted :: "plot_cmd list \<Rightarrow> (plot_label \<times> (day \<times> pyfloat) list) list" where
  "plotted [] = []"
| "plotted (PlotLine pts l s # cs) = (l, pts) # plotted cs"
| "plotted (_ # cs) = plotted cs"

subsection \<open>Lemmas\<close>

lemma plotted_append [simp]: "plotted (xs @ ys) = plotted xs @ plotted ys"
  by (induction xs rule: plotted.induct) simp_all

lemma plotted_ticker_lines [simp]:
  "plotted (map ticker_line xs) =
     map (\<lambda>(t, r). (TickerLabel t (bt_alpha r) (bt_sharpe r), zip (map fr_date (bt_frame r)) (bt_cum_strategy r))) xs"
  by (induction xs) (auto simp: ticker_line_def)

lemma plotted_final_plot:
  "plotted (final_plot b st) =
     (SpyLabel (spy_cagr b), zip (spy_dates b) (spy_cumulative b)) #
     map (\<lambda>(t, r). (TickerLabel t (bt_alpha r) (bt_sharpe r), zip (map fr_date (bt_frame r)) (bt_cum_strategy r)))
       (dict_items st)"
  by (simp add: final_plot_def spy_line_def)

lemma main_InrD:
  assumes "main (Inr raw) fetch = Inr (b, st)"
  shows "\<exists>spy_raw. spy_benchmark spy_raw = Inr b"
    "st = run_batch fetch (get_jobless_claims_data raw) (spy_cagr b) tickers init_batch"
  using assms by (auto simp: main_def Let_def split: sum.splits if_splits)

lemma backtest_strategy_cum_length:
  "backtest_strategy fetch t claims spy = Inr r \<Longrightarrow> length (bt_frame r) = length (bt_cum_strategy r)"
  by (auto dest!: backtest_strategy_InrD simp: backtest_frame_InrD)

lemma distinct_tickers: "distinct tickers"
  by (simp add: tickers_def)

subsection \<open>Properties of the figure\<close>

text \<open>
  C29 (safety). The legend shows every line: \<^verbatim>\<open>plt.legend()\<close> is called after the SPY line
  and after the line of every stored result, no line is drawn after it, and the last call
  is \<^verbatim>\<open>plt.show()\<close>.
\<close>

theorem legend_after_all_lines:
  "\<exists>pre post. final_plot b st = pre @ Legend # post \<and> plotted post = [] \<and>
     length (plotted pre) = Suc (length (dict_items st)) \<and> last (final_plot b st) = Show"
  by (rule exI [of _ "[Figure 14 8, spy_line b] @ map ticker_line (dict_items st) @
        [Title plot_title, XLabel ''Date'', YLabel ''Cumulative Return'']"],
      rule exI [of _ "[Grid True, TightLayout, Show]"])
     (simp add: final_plot_def spy_line_def)

end
