(* ===== verification/Spec2Isabelle.thy ===== *)
theory Spec2Isabelle
  imports Plot
begin

text \<open>
  \<^bold>\<open>A verification development for Weekly-Jobs-Strategy\<close>
  (\<^verbatim>\<open>src/Weekly_jobs_strategy.py\<close>, one Python script of 103 lines).

  \<^bold>\<open>The program.\<close> The script derives a Long/Flat signal from the weekly change of US
  initial jobless claims (FRED series ICSA), backtests it on nine tickers against SPY
  buy-and-hold, and plots the result. Its parts, leaf first, and how they interact:
  \<^item> Signal Generator, \<^verbatim>\<open>get_jobless_claims_data\<close> (lines 16-22): resample the claims to
    Fridays, percentage change, strict thresholds \<open>\<plusminus>2\<close>\%, forward fill.
  \<^item> Series Aligner, lines 27-38 of \<^verbatim>\<open>backtest_strategy\<close>: resample one ticker's closes,
    skip it when no price is valid, outer-join with the claims frame and drop incomplete rows.
  \<^item> Backtest Engine, lines 40-57: returns, the signal lagged one row times the return,
    cumulative products, CAGR over \<^verbatim>\<open>len(df)\<close> rows, Sharpe with a zero-deviation
    fallback, alpha against SPY; every exception of the function is caught (lines 59-61).
  \<^item> Benchmark Calculator, lines 70-80: SPY buy-and-hold cumulative return and CAGR, at
    top level, computed once before the loop; its CAGR is passed to every backtest.
  \<^item> Batch Runner, lines 64-66 and 84-88: one backtest per ticker; results that are not
    \<^verbatim>\<open>None\<close> go into the \<^verbatim>\<open>results\<close> dictionary.
  \<^item> Plotting, lines 91-104: the SPY line, then one line per item of the dictionary in its
    insertion order, labelled with alpha and Sharpe, then legend and \<^verbatim>\<open>plt.show()\<close>.
  The FRED and Yahoo downloads are external: the claims series is an argument of
  \<open>Batch.main\<close> (an \<open>Inl\<close> when the download raises) and the price provider a function
  of type \<open>Backtest.price_source\<close> (ticker, start, end to an error or a list of dated
  closes).

  \<^bold>\<open>The theories.\<close>
  \<^item> \<open>Prelude\<close>: dates as \<open>int\<close> day numbers, floats as \<open>pyfloat = real option\<close>
    (\<open>None\<close> is NaN), NaN-propagating arithmetic and NaN-false comparisons, the
    exception type \<open>py_error\<close>, shared list and product lemmas.
  \<^item> \<open>Pandas_Ops\<close>: the pandas operations the script calls, with pandas 2.2 semantics:
    \<open>resample_last\<close> (W-FRI bins, last valid value), \<open>ffill\<close> (an explicit scan),
    \<open>shift1\<close>, \<open>pct_change\<close> (pads NaN forward first), \<open>cumprod\<close> (skips NaN),
    \<open>dropna\<close>, \<open>series_mean\<close>, \<open>series_std\<close> (ddof 1), \<open>iloc_last\<close>
    (IndexError on empty), \<open>py_pow\<close>. Lemmas: each operation's value at every index, the
    forward fill equal to the reference \<open>latest\<close>, its undefined prefix, the telescoping of
    cumulative percentage changes, and the resampled index (sorted Fridays covering every
    observation, each bin's value the last valid observation).
  \<^item> \<open>Signal\<close>: the claims frame as a list of \<open>claims_row\<close> records
    (\<open>get_jobless_claims_data\<close>, \<open>raw_signal\<close>, \<open>signal_series\<close>). Lemmas: the
    undefined prefix of the signal, the switch rule at the strict thresholds, the signal as
    the latest crossing, the undefined first week, and the well-formedness of every claims
    frame (\<open>claims_frame_wf\<close>: strictly increasing Fridays, NaN signals only first).
  \<^item> \<open>Align\<close>: \<open>concat_dropna\<close>, the guard \<open>no_valid_prices\<close>, the frame as
    \<open>frame_row\<close> records. Lemmas: equality with the reference \<open>align_ref\<close> (the complete
    claims rows whose date has a non-NaN price, stated without \<open>complete_row\<close>) for
    sorted claims, the row count as the size of the intersection of valid dates, and every
    aligned row made of the price and claims columns of its own date.
  \<^item> \<open>Backtest\<close>: \<open>backtest_frame\<close> (lines 40-57, returning \<open>Inl IndexError\<close>
    on an empty frame) and \<open>backtest_strategy\<close> (the whole function, with skip reasons
    \<open>NoValidPrice\<close> and \<open>ErrorWith e\<close> for the printed messages). Lemmas: lag
    semantics, no lookahead, cumulative series as running products, round trip through
    \<open>pct_change\<close>, CAGR and alpha, Sharpe fallback, the error paths, the always-Flat
    strategy earning nothing, and the departures from the specification listed below.
  \<^item> \<open>Benchmark\<close>: \<open>spy_benchmark\<close>. Lemmas: cumulative return equal to the price
    relative, CAGR from first and last close, IndexError when empty.
  \<^item> \<open>Batch\<close>: the loop state \<open>batch_state\<close> (the dictionary as a map with its keys in
    insertion order, \<open>dict_items\<close> for \<^verbatim>\<open>results.items()\<close>, the printed skips as a
    list), \<open>batch_step\<close>, \<open>run_batch\<close>, \<open>tickers\<close>, \<open>main\<close>, and the
    abstract specification \<open>batch_spec\<close>. Lemmas: refinement of the specification, every
    ticker reported exactly once, an empty download skipped without stopping the loop,
    order independence, and the abort of the whole run when SPY has no data.
  \<^item> \<open>Plot\<close>: the matplotlib calls as a list of \<open>plot_cmd\<close> values (\<open>final_plot\<close>)
    and the whole script as \<open>script\<close>. Lemma: the legend comes after every line and
    \<^verbatim>\<open>plt.show()\<close> last.
  \<^item> This theory: properties across components, the alpha of every stored result against the
    benchmark computed once, an end-to-end run of \<open>main\<close> on concrete data, and the
    lines of the figure: SPY first, then the successful tickers in ticker order, each
    over its whole cumulative series.

  \<^bold>\<open>Modelling choices.\<close> Floats are real numbers: the theorems are about the exact
  arithmetic the script means, not about rounding (for instance a constant strategy return
  series has standard deviation exactly 0 here, while float64 may give a tiny non-zero
  value). Infinities are not modelled; they arise only from a division by zero. Where the
  script guards against one (the Sharpe ratio, line 49) the division is \<open>py_div\<close>, whose
  zero case is a non-finite value (\<open>None\<close>), so the guard is observable; elsewhere a
  division by a zero price or claims level follows HOL's \<open>x / 0 = 0\<close> (a return of -1
  where numpy gives inf or NaN), which the theorems that need it exclude with positive
  prices and claims, and which real closes never reach. numpy's power of a negative base is
  modelled as NaN; the lemma \<open>Backtest.cum_strategy_pos\<close> shows the base is positive
  whenever prices are. Every loop of the script is a structural recursion over a finite
  list (the ticker loop \<open>run_batch\<close>, the scans \<open>ffill_from\<close> and
  \<open>cumprod_from\<close>, the bins of \<open>resample_last\<close>), so no fuel or bound is needed and
  every definition is total and executable; the witnesses evaluate them with \<open>simp\<close>.
  Termination is therefore not stated as a property: it holds by construction of the
  definitions (Python's \<^verbatim>\<open>for\<close> over a finite list ends), and a theorem claiming
  it would hold for any loop body. A Python dictionary
  is a map together with the order in which its keys were first inserted. Plot labels are
  kept as the numbers they format: the decimal rendering of floats is not modelled.

  \<^bold>\<open>Not modelled.\<close> Configuration (lines 1-13: imports, the API key, the pandas
  option, the FRED client) sets up the process and changes no state of the program beyond
  selecting the pandas semantics assumed throughout. The FRED and Yahoo downloads are
  network I/O, modelled only as the inputs described above.

  \<^bold>\<open>Departures from the specification\<close> (each proved):
  the cumulative series are NaN, not 1, at row 0 (\<open>Backtest.cum_seed_nan\<close>, and in
  the specification's scenario \<open>end_to_end_scenario\<close>); the Sharpe ratio is NaN with a single strategy
  return (\<open>Backtest.sharpe_nan_single_return\<close>); the CAGR annualises \<open>N - 1\<close>
  weekly returns over \<open>N\<close> weeks (\<open>Backtest.cagr_constant_growth\<close>); and an empty SPY
  series aborts the whole run (\<open>Batch.main_benchmark_abort\<close>).

  \<^bold>\<open>Plan for later work.\<close> Relate the resampled price series of the aligner to the
  benchmark's (same Friday anchors); model the provider's date window (the exclusive end
  date of \<^verbatim>\<open>yf.download\<close>) as a property of \<open>price_source\<close>; bound the Sharpe ratio
  for bounded weekly returns.
\<close>

subsection \<open>Lemmas\<close>

lemma ex_prices_resampled:
  "resample_last ex_prices_raw = [(15, Some 100), (22, Some 110), (29, Some 99)]"
  by (simp add: ex_prices_raw_def resample_last_def week_anchor_def numeral_eq_Suc upt_rec)

lemma ex_xly_aligned:
  "concat_dropna [(15, Some 100), (22, Some 110), (29, Some 99)]
     [\<lparr>cr_date = 8, initial_claims = Some 100, claims_change = None, signal = None\<rparr>,
      \<lparr>cr_date = 15, initial_claims = Some 110, claims_change = Some 10, signal = Some Flat\<rparr>,
      \<lparr>cr_date = 22, initial_claims = Some 99, claims_change = Some (-10), signal = Some Long\<rparr>,
      \<lparr>cr_date = 29, initial_claims = Some 99, claims_change = Some 0, signal = Some Long\<rparr>] = ex_frame"
  by (simp add: ex_frame_def concat_dropna_def claims_lookup_def complete_row_def)

lemma ex_frame_cum:
  "backtest_frame ex_frame spy = Inr r \<Longrightarrow> bt_cum_strategy r = [None, Some 1, Some (9/10)]"
  by (simp add: backtest_frame_InrD ex_frame_def strategy_returns_def frame_returns_def
      pct_change_def ffill_def shift1_def one_plus_def cumprod_def sig_val_def)

lemma ex_spy_benchmark:
  "spy_benchmark ex_spy_raw = Inr b \<Longrightarrow> spy_cagr b = Some (1/10)"
proof -
  assume b: "spy_benchmark ex_spy_raw = Inr b"
  have "last (spy_cumulative b) = spy_cumulative b ! 51"
    using b by (simp add: spy_benchmark_InrD last_conv_nth ex_spy_prices)
  also have "\<dots> = Some (11/10)"
    using b buy_hold_cum_nth [of "spy_price_list ex_spy_raw" 51]
    by (simp add: spy_benchmark_InrD ex_spy_prices nth_append)
  finally show ?thesis using b by (simp add: spy_benchmark_InrD ex_spy_prices annualise_def)
qed

lemma ex_main_run:
  "\<exists>b st r. main (Inr ex_claims_raw) ex_source = Inr (b, st) \<and> spy_cagr b = Some (1/10) \<and>
     backtest_frame ex_frame (spy_cagr b) = Inr r \<and> results st ''XLY'' = Some r \<and>
     results st ''TSLA'' = None \<and> (''TSLA'', NoValidPrice) \<in> set (skipped st)"
proof -
  let ?jc = "get_jobless_claims_data ex_claims_raw"
  obtain b where b: "spy_benchmark ex_spy_raw = Inr b"
    using spy_benchmark_Inr_ex [of ex_spy_raw] by (auto simp: ex_spy_prices)
  have cagr: "spy_cagr b = Some (1/10)" using b by (rule ex_spy_benchmark)
  obtain r where r: "backtest_frame ex_frame (spy_cagr b) = Inr r"
    using backtest_frame_Inr_ex [of ex_frame "spy_cagr b"] by (auto simp: ex_frame_def)
  have xly: "backtest_strategy ex_source ''XLY'' ?jc (spy_cagr b) = Inr r"
    using r by (simp add: backtest_strategy_def ex_source_def ex_xly_aligned no_valid_prices_def
        ex_claims_frame ex_prices_resampled)
  have tsla: "backtest_strategy ex_source ''TSLA'' ?jc (spy_cagr b) = Inl NoValidPrice"
    by (rule backtest_strategy_empty_download) (simp_all add: ex_claims_frame ex_source_def)
  let ?st = "run_batch ex_source ?jc (spy_cagr b) tickers init_batch"
  have m: "main (Inr ex_claims_raw) ex_source = Inr (b, ?st)"
    using b by (simp add: main_def ex_claims_frame ex_source_def)
  have "results ?st ''XLY'' = Some r"
    using xly by (simp add: results_run_batch tickers_def del: run_batch.simps)
  moreover have "results ?st ''TSLA'' = None" "(''TSLA'', NoValidPrice) \<in> set (skipped ?st)"
    using tsla by (simp_all add: results_run_batch skipped_run_batch tickers_def init_batch_def
        del: run_batch.simps)
  ultimately show ?thesis using m cagr r by blast
qed

subsection \<open>Properties across components\<close>

text \<open>
  C26 (refinement). The benchmark is computed once and its CAGR reaches every instrument:
  after a successful run, every stored result's alpha is its CAGR minus the SPY CAGR of
  the benchmark the run computed.
\<close>

theorem main_alpha_consistent:
  assumes "main fred fetch = Inr (b, st)" "results st t = Some r"
  shows "bt_alpha r = nan_lift2 (-) (bt_cagr r) (spy_cagr b)"
proof -
  obtain raw spy_raw where st: "st = run_batch fetch (get_jobless_claims_data raw) (spy_cagr b) tickers init_batch"
    using assms(1) by (auto simp: main_def Let_def split: sum.splits if_splits)
  then have "backtest_strategy fetch t (get_jobless_claims_data raw) (spy_cagr b) = Inr r"
    using assms(2) by (auto simp: results_run_batch init_batch_def split: if_splits sum.splits)
  then obtain df where "backtest_frame df (spy_cagr b) = Inr r"
    using backtest_strategy_InrD by blast
  then show ?thesis by (rule backtest_frame_InrD(9))
qed

theorem main_alpha_consistent_witness:
  "\<exists>b st r. main (Inr ex_claims_raw) ex_source = Inr (b, st) \<and> results st ''XLY'' = Some r \<and>
     bt_alpha r = nan_lift2 (-) (bt_cagr r) (spy_cagr b)"
proof -
  obtain b st r where run: "main (Inr ex_claims_raw) ex_source = Inr (b, st)" "results st ''XLY'' = Some r"
    using ex_main_run by blast
  show ?thesis using run main_alpha_consistent [OF run] by blast
qed

text \<open>
  C27 (functional). An end-to-end run on concrete data: four weeks of claims, 52 weeks of SPY
  closes rising 10\% in total, three weekly XLY closes 100, 110, 99 and no data for the
  other tickers. The benchmark CAGR is 0.10; XLY's aligned frame is the specification's
  scenario and its cumulative strategy series is NaN, 1, 0.9 with alpha against 0.10;
  TSLA (no data) has no entry and is reported as skipped.
\<close>

theorem end_to_end_scenario:
  "\<exists>b st r. main (Inr ex_claims_raw) ex_source = Inr (b, st) \<and> spy_cagr b = Some (1/10) \<and>
     results st ''XLY'' = Some r \<and> bt_cum_strategy r = [None, Some 1, Some (9/10)] \<and>
     bt_alpha r = nan_lift2 (-) (bt_cagr r) (Some (1/10)) \<and>
     results st ''TSLA'' = None \<and> (''TSLA'', NoValidPrice) \<in> set (skipped st)"
proof -
  obtain b st r where run: "main (Inr ex_claims_raw) ex_source = Inr (b, st)" "spy_cagr b = Some (1/10)"
    "backtest_frame ex_frame (spy_cagr b) = Inr r" "results st ''XLY'' = Some r"
    "results st ''TSLA'' = None" "(''TSLA'', NoValidPrice) \<in> set (skipped st)"
    using ex_main_run by blast
  have "bt_alpha r = nan_lift2 (-) (bt_cagr r) (Some (1/10))"
    using backtest_frame_InrD(9) [OF run(3)] run(2) by simp
  then show ?thesis using run ex_frame_cum [OF run(3)] by blast
qed

text \<open>
  C28 (functional). What the figure shows after a successful run: first the SPY line labelled
  with the benchmark CAGR, then, in the order of the ticker list, one line for each ticker
  whose backtest succeeded, labelled with its alpha and Sharpe ratio; each line's values
  are the whole cumulative series (the zip with its dates drops no row).
\<close>

theorem plot_lines_follow_results:
  assumes "main (Inr raw) fetch = Inr (b, st)"
  shows "map fst (plotted (final_plot b st)) =
      SpyLabel (spy_cagr b) # map (\<lambda>(t, r). TickerLabel t (bt_alpha r) (bt_sharpe r))
        (List.map_filter (\<lambda>t. map_option (Pair t)
           (success (backtest_strategy fetch t (get_jobless_claims_data raw) (spy_cagr b)))) tickers) \<and>
    map (map snd \<circ> snd) (plotted (final_plot b st)) =
      spy_cumulative b # map (\<lambda>(t, r). bt_cum_strategy r)
        (List.map_filter (\<lambda>t. map_option (Pair t)
           (success (backtest_strategy fetch t (get_jobless_claims_data raw) (spy_cagr b)))) tickers)"
proof -
  let ?ok = "List.map_filter (\<lambda>t. map_option (Pair t)
      (success (backtest_strategy fetch t (get_jobless_claims_data raw) (spy_cagr b)))) tickers"
  have items: "dict_items st = ?ok"
    using main_InrD(2) [OF assms] by (simp add: dict_items_run_batch distinct_tickers del: run_batch.simps)
  have spy: "length (spy_dates b) = length (spy_cumulative b)"
    using main_InrD(1) [OF assms] spy_benchmark_dates_length by blast
  have "length (bt_frame r) = length (bt_cum_strategy r)" if "(t, r) \<in> set ?ok" for t r
    using that by (auto simp: in_set_map_filter success_def split: sum.splits intro: backtest_strategy_cum_length)
  then have "map (map snd \<circ> snd) (plotted (final_plot b st)) =
      spy_cumulative b # map (\<lambda>(t, r). bt_cum_strategy r) ?ok"
    using spy by (auto simp: plotted_final_plot items)
  then show ?thesis by (simp add: plotted_final_plot items case_prod_beta comp_def)
qed

theorem plot_lines_follow_results_witness:
  "\<exists>b st. main (Inr ex_claims_raw) ex_source = Inr (b, st) \<and>
     map fst (plotted (final_plot b st)) =
      SpyLabel (spy_cagr b) # map (\<lambda>(t, r). TickerLabel t (bt_alpha r) (bt_sharpe r))
        (List.map_filter (\<lambda>t. map_option (Pair t)
           (success (backtest_strategy ex_source t (get_jobless_claims_data ex_claims_raw) (spy_cagr b)))) tickers) \<and>
    map (map snd \<circ> snd) (plotted (final_plot b st)) =
      spy_cumulative b # map (\<lambda>(t, r). bt_cum_strategy r)
        (List.map_filter (\<lambda>t. map_option (Pair t)
           (success (backtest_strategy ex_source t (get_jobless_claims_data ex_claims_raw) (spy_cagr b)))) tickers)"
proof -
  obtain b st where run: "main (Inr ex_claims_raw) ex_source = Inr (b, st)"
    using ex_main_run by blast
  show ?thesis by (rule exI, rule exI, rule conjI [OF run plot_lines_follow_results [OF run]])
qed

end
